theory Spec2Isabelle
  imports Complex_Main
begin

section \<open>Two-dimensional arrays\<close>

text \<open>
  The notebook works on two-dimensional numpy arrays. An array carries its shape
  (so that a shape such as \<open>(0, 3)\<close> is not lost) and its rows. Floating-point entries
  are idealised as real numbers; the observation mask is an array of booleans.
\<close>

datatype error = ValueError

record 'a ndarray =
  shape :: "nat \<times> nat"
  rows :: "'a list list"

definition valid :: "'a ndarray \<Rightarrow> bool" where
  "valid A \<longleftrightarrow> length (rows A) = fst (shape A) \<and> list_all (\<lambda>r. length r = snd (shape A)) (rows A)"

definition entry :: "'a ndarray \<Rightarrow> nat \<Rightarrow> nat \<Rightarrow> 'a" where
  "entry A i j = rows A ! i ! j"

definition tabulate :: "nat \<Rightarrow> nat \<Rightarrow> (nat \<Rightarrow> nat \<Rightarrow> 'a) \<Rightarrow> 'a ndarray" where
  "tabulate n m f = \<lparr>shape = (n, m), rows = map (\<lambda>i. map (f i) [0..<m]) [0..<n]\<rparr>"

definition bindE :: "'e + 'a \<Rightarrow> ('a \<Rightarrow> 'e + 'b) \<Rightarrow> 'e + 'b" where
  "bindE r f = (case r of Inl e \<Rightarrow> Inl e | Inr v \<Rightarrow> f v)"

subsection \<open>The numpy operations the notebook uses\<close>

text \<open>\<open>A @ B\<close>: the inner dimensions must agree, otherwise numpy raises \<open>ValueError\<close>.\<close>

definition matmul :: "real ndarray \<Rightarrow> real ndarray \<Rightarrow> error + real ndarray" where
  "matmul A B =
     (if snd (shape A) \<noteq> fst (shape B) then Inl ValueError
      else Inr (tabulate (fst (shape A)) (snd (shape B))
                  (\<lambda>i j. sum_list (map (\<lambda>l. entry A i l * entry B l j) [0..<snd (shape A)]))))"

text \<open>\<open>A.T\<close>\<close>

definition np_T :: "'a ndarray \<Rightarrow> 'a ndarray" where
  "np_T A = tabulate (snd (shape A)) (fst (shape A)) (\<lambda>i j. entry A j i)"

text \<open>
  Elementwise operations broadcast: two dimensions are compatible when they are equal
  or one of them is 1, and an axis of length 1 is read at index 0 throughout.
\<close>

definition broadcast_dim :: "nat \<Rightarrow> nat \<Rightarrow> nat option" where
  "broadcast_dim a b = (if a = b then Some a else if a = 1 then Some b else if b = 1 then Some a else None)"

definition broadcast_shapes :: "nat \<times> nat \<Rightarrow> nat \<times> nat \<Rightarrow> (nat \<times> nat) option" where
  "broadcast_shapes s t =
     (case broadcast_dim (fst s) (fst t) of
        None \<Rightarrow> None
      | Some n \<Rightarrow> (case broadcast_dim (snd s) (snd t) of None \<Rightarrow> None | Some m \<Rightarrow> Some (n, m)))"

definition bentry :: "'a ndarray \<Rightarrow> nat \<Rightarrow> nat \<Rightarrow> 'a" where
  "bentry A i j = entry A (if fst (shape A) = 1 then 0 else i) (if snd (shape A) = 1 then 0 else j)"

definition ufunc :: "('a \<Rightarrow> 'b \<Rightarrow> 'c) \<Rightarrow> 'a ndarray \<Rightarrow> 'b ndarray \<Rightarrow> error + 'c ndarray" where
  "ufunc f A B =
     (case broadcast_shapes (shape A) (shape B) of
        None \<Rightarrow> Inl ValueError
      | Some (n, m) \<Rightarrow> Inr (tabulate n m (\<lambda>i j. f (bentry A i j) (bentry B i j))))"

text \<open>\<open>A - B\<close>, \<open>A + B\<close>, and \<open>A * M\<close> for a boolean array \<open>M\<close> (True counts as 1, False as 0).\<close>

definition subtract :: "real ndarray \<Rightarrow> real ndarray \<Rightarrow> error + real ndarray" where
  "subtract = ufunc (\<lambda>x y. x - y)"

definition add :: "real ndarray \<Rightarrow> real ndarray \<Rightarrow> error + real ndarray" where
  "add = ufunc (\<lambda>x y. x + y)"

definition multiply_mask :: "real ndarray \<Rightarrow> bool ndarray \<Rightarrow> error + real ndarray" where
  "multiply_mask = ufunc (\<lambda>x b. x * (if b then 1 else 0))"

text \<open>\<open>c * A\<close> for a scalar \<open>c\<close>.\<close>

definition smul :: "real \<Rightarrow> real ndarray \<Rightarrow> real ndarray" where
  "smul c A = tabulate (fst (shape A)) (snd (shape A)) (\<lambda>i j. c * entry A i j)"

text \<open>
  \<open>A -= B\<close>: the in-place form writes into \<open>A\<close>, so \<open>B\<close> may be broadcast but the
  result must have the shape of \<open>A\<close>.
\<close>

definition isubtract :: "real ndarray \<Rightarrow> real ndarray \<Rightarrow> error + real ndarray" where
  "isubtract A B =
     (if broadcast_shapes (shape A) (shape B) = Some (shape A)
      then Inr (tabulate (fst (shape A)) (snd (shape A)) (\<lambda>i j. entry A i j - bentry B i j))
      else Inl ValueError)"

text \<open>\<open>np.sum(A)\<close> and \<open>np.linalg.norm(A)\<close> (the Frobenius norm).\<close>

definition np_sum :: "real ndarray \<Rightarrow> real" where
  "np_sum A = sum_list (map sum_list (rows A))"

definition linalg_norm :: "real ndarray \<Rightarrow> real" where
  "linalg_norm A = sqrt (sum_list (map (\<lambda>r. sum_list (map (\<lambda>x. x * x) r)) (rows A)))"

text \<open>
  \<open>np.random.randn(n, m)\<close>: the generator is a stream of samples; the array is filled
  row by row from it and the stream advances by \<open>n * m\<close>.
\<close>

definition randn :: "(nat \<Rightarrow> real) \<Rightarrow> nat \<Rightarrow> nat \<Rightarrow> real ndarray \<times> (nat \<Rightarrow> real)" where
  "randn g n m = (tabulate n m (\<lambda>i j. g (i * m + j)), (\<lambda>t. g (n * m + t)))"

section \<open>The notebook's functions\<close>

text \<open>The expression \<open>(X @ Theta.T - Y) * has_rating\<close>, which all three places share.\<close>

definition masked_error :: "real ndarray \<Rightarrow> real ndarray \<Rightarrow> real ndarray \<Rightarrow> bool ndarray \<Rightarrow> error + real ndarray" where
  "masked_error X Theta Y has_rating =
     bindE (matmul X (np_T Theta)) (\<lambda>P.
     bindE (subtract P Y) (\<lambda>D.
     multiply_mask D has_rating))"

definition compute_cost :: "real ndarray \<Rightarrow> real ndarray \<Rightarrow> real ndarray \<Rightarrow> bool ndarray \<Rightarrow> real \<Rightarrow> error + real" where
  "compute_cost X Theta Y has_rating reg =
     bindE (masked_error X Theta Y has_rating) (\<lambda>err.
     bindE (matmul err (np_T err)) (\<lambda>G.
       let squared_diff = np_sum G / 2;
           penalty = reg / 2 * ((linalg_norm X)\<^sup>2 + (linalg_norm Theta)\<^sup>2)
       in Inr (squared_diff + penalty)))"

text \<open>The right-hand sides of \<open>dX\<close> and \<open>dTheta\<close> in \<open>update\<close>.\<close>

definition update_dX :: "real ndarray \<Rightarrow> real ndarray \<Rightarrow> real ndarray \<Rightarrow> bool ndarray \<Rightarrow> real \<Rightarrow> error + real ndarray" where
  "update_dX X Theta Y has_rating reg =
     bindE (masked_error X Theta Y has_rating) (\<lambda>err.
     bindE (matmul err Theta) (\<lambda>G.
     add G (smul reg X)))"

definition update_dTheta :: "real ndarray \<Rightarrow> real ndarray \<Rightarrow> real ndarray \<Rightarrow> bool ndarray \<Rightarrow> real \<Rightarrow> error + real ndarray" where
  "update_dTheta X Theta Y has_rating reg =
     bindE (masked_error X Theta Y has_rating) (\<lambda>err.
     bindE (matmul (np_T err) X) (\<lambda>G.
     add G (smul reg Theta)))"

text \<open>
  \<open>update\<close> changes its arguments in place, so \<open>X\<close> and \<open>Theta\<close> are references into a
  store of array objects. Both gradients are computed before the first write. An
  exception leaves the store as it is at that moment.
\<close>

type_synonym ref = nat
type_synonym store = "ref \<Rightarrow> real ndarray"

definition update :: "store \<Rightarrow> ref \<Rightarrow> ref \<Rightarrow> real ndarray \<Rightarrow> bool ndarray \<Rightarrow> real \<Rightarrow> real \<Rightarrow> (error + ref \<times> ref) \<times> store" where
  "update s X Theta Y has_rating reg alpha =
     (case update_dX (s X) (s Theta) Y has_rating reg of
        Inl e \<Rightarrow> (Inl e, s)
      | Inr dX \<Rightarrow>
     (case update_dTheta (s X) (s Theta) Y has_rating reg of
        Inl e \<Rightarrow> (Inl e, s)
      | Inr dTheta \<Rightarrow>
     (case isubtract (s X) (smul alpha dX) of
        Inl e \<Rightarrow> (Inl e, s)
      | Inr X' \<Rightarrow>
     (let s1 = s(X := X') in
      case isubtract (s1 Theta) (smul alpha dTheta) of
        Inl e \<Rightarrow> (Inl e, s1)
      | Inr Theta' \<Rightarrow> (Inr (X, Theta), s1(Theta := Theta'))))))"

text \<open>
  The loop of \<open>train\<close> over \<open>range(n_iter)\<close>. The printed lines are collected as
  (iteration, loss) pairs.
\<close>

fun train_loop :: "real ndarray \<Rightarrow> bool ndarray \<Rightarrow> real \<Rightarrow> real \<Rightarrow> int list \<Rightarrow>
    store \<Rightarrow> ref \<Rightarrow> ref \<Rightarrow> (int \<times> real) list \<Rightarrow> (error + store \<times> ref \<times> ref) \<times> (int \<times> real) list" where
  "train_loop Y has_rating reg alpha [] s X Theta out = (Inr (s, X, Theta), out)"
| "train_loop Y has_rating reg alpha (i # is) s X Theta out =
     (case (if i = 0 \<or> i mod 100 = 0
            then bindE (compute_cost (s X) (s Theta) Y has_rating reg) (\<lambda>c. Inr (out @ [(i, c)]))
            else Inr out) of
        Inl e \<Rightarrow> (Inl e, out)
      | Inr out' \<Rightarrow>
          (case update s X Theta Y has_rating reg alpha of
             (Inl e, s') \<Rightarrow> (Inl e, out')
           | (Inr (X', Theta'), s') \<Rightarrow> train_loop Y has_rating reg alpha is s' X' Theta' out'))"

definition py_range :: "int \<Rightarrow> int list" where
  "py_range n = map int [0..<nat n]"

text \<open>
  \<open>train\<close>: the two factor matrices are fresh objects (references 0 and 1 of a store of
  its own); a negative \<open>n_factor\<close> makes \<open>randn\<close> raise.
\<close>

definition train :: "(nat \<Rightarrow> real) \<Rightarrow> real ndarray \<Rightarrow> bool ndarray \<Rightarrow> real \<Rightarrow> real \<Rightarrow> int \<Rightarrow> int \<Rightarrow>
    (error + real ndarray \<times> real ndarray) \<times> (int \<times> real) list" where
  "train g Y has_rating reg alpha n_factor n_iter =
     (let ni = fst (shape Y); nu = snd (shape Y) in
      if n_factor < 0 then (Inl ValueError, [])
      else
        (let (X0, g1) = randn g ni (nat n_factor);
             (Theta0, g2) = randn g1 nu (nat n_factor);
             s = (\<lambda>r. if r = 0 then X0 else Theta0)
         in case train_loop Y has_rating reg alpha (py_range n_iter) s 0 1 [] of
              (Inl e, out) \<Rightarrow> (Inl e, out)
            | (Inr (s', X, Theta), out) \<Rightarrow> (Inr (s' X, s' Theta), out)))"

section \<open>The specification's quantities\<close>

text \<open>
  The quantities the specification speaks of, written entrywise: the squared Frobenius
  norm, the masked residual \<open>E\<close>, the cost, the two gradients, exact reconstruction of
  the observed entries, and one gradient-descent step on a pair of matrices.
\<close>

definition frob2 :: "real ndarray \<Rightarrow> real" where
  "frob2 A = (\<Sum>i<fst (shape A). \<Sum>j<snd (shape A). (entry A i j)\<^sup>2)"

definition spec_E :: "real ndarray \<Rightarrow> real ndarray \<Rightarrow> real ndarray \<Rightarrow> bool ndarray \<Rightarrow> nat \<Rightarrow> nat \<Rightarrow> real" where
  "spec_E X Theta Y R i j =
     (if entry R i j then (\<Sum>l<snd (shape X). entry X i l * entry Theta j l) - entry Y i j else 0)"

definition spec_cost :: "real ndarray \<Rightarrow> real ndarray \<Rightarrow> real ndarray \<Rightarrow> bool ndarray \<Rightarrow> real \<Rightarrow> real" where
  "spec_cost X Theta Y R reg =
     (1 / 2) * (\<Sum>i<fst (shape X). \<Sum>j<fst (shape Theta). (spec_E X Theta Y R i j)\<^sup>2)
     + (reg / 2) * (frob2 X + frob2 Theta)"

definition spec_dX :: "real ndarray \<Rightarrow> real ndarray \<Rightarrow> real ndarray \<Rightarrow> bool ndarray \<Rightarrow> real \<Rightarrow> nat \<Rightarrow> nat \<Rightarrow> real" where
  "spec_dX X Theta Y R reg i l =
     (\<Sum>j<fst (shape Theta). spec_E X Theta Y R i j * entry Theta j l) + reg * entry X i l"

definition spec_dTheta :: "real ndarray \<Rightarrow> real ndarray \<Rightarrow> real ndarray \<Rightarrow> bool ndarray \<Rightarrow> real \<Rightarrow> nat \<Rightarrow> nat \<Rightarrow> real" where
  "spec_dTheta X Theta Y R reg j l =
     (\<Sum>i<fst (shape X). spec_E X Theta Y R i j * entry X i l) + reg * entry Theta j l"

definition spec_reconstructed :: "real ndarray \<Rightarrow> real ndarray \<Rightarrow> real ndarray \<Rightarrow> bool ndarray \<Rightarrow> bool" where
  "spec_reconstructed X Theta Y R \<longleftrightarrow>
     list_all (\<lambda>i. list_all (\<lambda>j. entry R i j \<longrightarrow>
         (\<Sum>l<snd (shape X). entry X i l * entry Theta j l) = entry Y i j) [0..<fst (shape Theta)])
       [0..<fst (shape X)]"

definition spec_updateStep :: "real ndarray \<Rightarrow> bool ndarray \<Rightarrow> real \<Rightarrow> real \<Rightarrow>
    real ndarray \<times> real ndarray \<Rightarrow> real ndarray \<times> real ndarray" where
  "spec_updateStep Y R reg alpha p =
     (let X = fst p; Theta = snd p in
      (tabulate (fst (shape X)) (snd (shape X)) (\<lambda>i l. entry X i l - alpha * spec_dX X Theta Y R reg i l),
       tabulate (fst (shape Theta)) (snd (shape Theta)) (\<lambda>j l. entry Theta j l - alpha * spec_dTheta X Theta Y R reg j l)))"

text \<open>
  The value the code's cost expression takes on conforming shapes: the sum of all entries
  of \<open>E E\<^sup>T\<close> is the sum over the columns of \<open>E\<close> of the squared column sums.
\<close>

definition cost_value :: "real ndarray \<Rightarrow> real ndarray \<Rightarrow> real ndarray \<Rightarrow> bool ndarray \<Rightarrow> real \<Rightarrow> real" where
  "cost_value X Theta Y R reg =
     (\<Sum>j<fst (shape Theta). (\<Sum>i<fst (shape X). spec_E X Theta Y R i j)\<^sup>2) / 2
     + reg / 2 * (frob2 X + frob2 Theta)"

text \<open>The two matrices \<open>train\<close> draws before its loop.\<close>

definition init_factors :: "(nat \<Rightarrow> real) \<Rightarrow> real ndarray \<Rightarrow> nat \<Rightarrow> real ndarray \<times> real ndarray" where
  "init_factors g Y k =
     (fst (randn g (fst (shape Y)) k), fst (randn (snd (randn g (fst (shape Y)) k)) (snd (shape Y)) k))"

text \<open>
  numpy's broadcasting rule on three lengths (pairwise equal or 1), and the stricter
  condition that a length is the expected one or 1.
\<close>

definition compatible3 :: "nat \<Rightarrow> nat \<Rightarrow> nat \<Rightarrow> bool" where
  "compatible3 a b c \<longleftrightarrow>
     (a = b \<or> a = 1 \<or> b = 1) \<and> (a = c \<or> a = 1 \<or> c = 1) \<and> (b = c \<or> b = 1 \<or> c = 1)"

definition fits :: "nat \<Rightarrow> nat \<Rightarrow> bool" where
  "fits d n \<longleftrightarrow> d = n \<or> d = 1"

definition shapes_fit :: "real ndarray \<Rightarrow> real ndarray \<Rightarrow> real ndarray \<Rightarrow> bool ndarray \<Rightarrow> bool" where
  "shapes_fit X Theta Y R \<longleftrightarrow>
     snd (shape X) = snd (shape Theta) \<and>
     fits (fst (shape Y)) (fst (shape X)) \<and> fits (fst (shape R)) (fst (shape X)) \<and>
     fits (snd (shape Y)) (fst (shape Theta)) \<and> fits (snd (shape R)) (fst (shape Theta))"

text \<open>
  \<open>update\<close> called on two separate array objects, as \<open>train\<close> calls it, and the result
  of calling it \<open>n\<close> times in sequence.
\<close>

definition update_pair :: "real ndarray \<Rightarrow> bool ndarray \<Rightarrow> real \<Rightarrow> real \<Rightarrow>
    real ndarray \<times> real ndarray \<Rightarrow> error + real ndarray \<times> real ndarray" where
  "update_pair Y R reg alpha p =
     (case update (\<lambda>r. if r = 0 then fst p else snd p) 0 1 Y R reg alpha of
        (Inl e, s') \<Rightarrow> Inl e
      | (Inr (X', Theta'), s') \<Rightarrow> Inr (s' X', s' Theta'))"

fun apply_updates :: "nat \<Rightarrow> real ndarray \<Rightarrow> bool ndarray \<Rightarrow> real \<Rightarrow> real \<Rightarrow>
    real ndarray \<times> real ndarray \<Rightarrow> error + real ndarray \<times> real ndarray" where
  "apply_updates 0 Y R reg alpha p = Inr p"
| "apply_updates (Suc n) Y R reg alpha p = bindE (update_pair Y R reg alpha p) (apply_updates n Y R reg alpha)"

text \<open>
  Conforming shapes: \<open>X\<close> is \<open>(ni, k)\<close>, \<open>Theta\<close> is \<open>(nu, k)\<close>, \<open>Y\<close> and \<open>R\<close> are
  \<open>(ni, nu)\<close>, and every array has the rows its shape announces.
\<close>

definition conforming :: "real ndarray \<Rightarrow> real ndarray \<Rightarrow> real ndarray \<Rightarrow> bool ndarray \<Rightarrow> bool" where
  "conforming X Theta Y R \<longleftrightarrow>
     valid X \<and> valid Theta \<and> valid Y \<and> valid R \<and>
     snd (shape Theta) = snd (shape X) \<and>
     shape Y = (fst (shape X), fst (shape Theta)) \<and> shape R = shape Y"

text \<open>Small concrete arrays: \<open>X\<close> is 2x2, \<open>Theta\<close> is 3x2, \<open>Y\<close> and \<open>R\<close> are 2x3.\<close>

definition ex_X :: "real ndarray" where
  "ex_X = \<lparr>shape = (2, 2), rows = [[1, 2], [3, 4]]\<rparr>"

definition ex_Theta :: "real ndarray" where
  "ex_Theta = \<lparr>shape = (3, 2), rows = [[1, 0], [0, 1], [1, 1]]\<rparr>"

definition ex_Y :: "real ndarray" where
  "ex_Y = \<lparr>shape = (2, 3), rows = [[1, 0, 5], [0, 4, 7]]\<rparr>"

definition ex_R :: "bool ndarray" where
  "ex_R = \<lparr>shape = (2, 3), rows = [[True, False, True], [False, True, True]]\<rparr>"

lemmas ex_defs = ex_X_def ex_Theta_def ex_Y_def ex_R_def

text \<open>A 1x1 zero matrix with its mask, and ratings that \<open>ex_X\<close>, \<open>ex_Theta\<close> fit on \<open>ex_R\<close>.\<close>

definition zero_X :: "real ndarray" where
  "zero_X = \<lparr>shape = (1, 1), rows = [[0]]\<rparr>"

definition one_R :: "bool ndarray" where
  "one_R = \<lparr>shape = (1, 1), rows = [[True]]\<rparr>"

definition fit_Y :: "real ndarray" where
  "fit_Y = \<lparr>shape = (2, 3), rows = [[1, 9, 3], [9, 4, 7]]\<rparr>"

text \<open>
  Ratings that differ from \<open>ex_Y\<close> only where \<open>ex_R\<close> is false, a mask with nothing
  observed, a 1x1 ratings array, a \<open>Theta\<close> with one factor too many, a 1x1 matrix of
  ones, and masks and ratings of shape 5x7.
\<close>

definition alt_Y :: "real ndarray" where
  "alt_Y = \<lparr>shape = (2, 3), rows = [[1, 99, 5], [-3, 4, 7]]\<rparr>"

definition none_R :: "bool ndarray" where
  "none_R = \<lparr>shape = (2, 3), rows = [[False, False, False], [False, False, False]]\<rparr>"

definition scalar_Y :: "real ndarray" where
  "scalar_Y = \<lparr>shape = (1, 1), rows = [[2]]\<rparr>"

definition wide_Theta :: "real ndarray" where
  "wide_Theta = \<lparr>shape = (3, 3), rows = [[1, 0, 0], [0, 1, 0], [1, 1, 0]]\<rparr>"


definition big_Y :: "real ndarray" where
  "big_Y = tabulate 5 7 (\<lambda>i j. real (i + j))"

definition big_R :: "bool ndarray" where
  "big_R = tabulate 5 7 (\<lambda>i j. i \<le> j)"

definition ex_store :: store where
  "ex_store = (\<lambda>r. if r = 0 then ex_X else ex_Theta)"


text \<open>Two items, one user, one factor; every rating observed.\<close>

definition col_X :: "real \<Rightarrow> real ndarray" where
  "col_X t = \<lparr>shape = (2, 1), rows = [[t], [1]]\<rparr>"

definition col_Theta :: "real ndarray" where
  "col_Theta = \<lparr>shape = (1, 1), rows = [[1]]\<rparr>"

definition col_Y :: "real ndarray" where
  "col_Y = \<lparr>shape = (2, 1), rows = [[0], [0]]\<rparr>"

definition col_R :: "bool ndarray" where
  "col_R = \<lparr>shape = (2, 1), rows = [[True], [True]]\<rparr>"

lemmas col_defs = col_X_def col_Theta_def col_Y_def col_R_def

lemmas eval_defs = compute_cost_def masked_error_def matmul_def np_T_def subtract_def multiply_mask_def
  ufunc_def add_def smul_def isubtract_def update_dX_def update_dTheta_def broadcast_shapes_def
  broadcast_dim_def bentry_def entry_def tabulate_def bindE_def np_sum_def linalg_norm_def upt_conv_Cons

text \<open>
  The specification's reporting rule, with the interval as the parameter \<open>reportEvery\<close> that
  the specification gives to \<open>train\<close>: a report before the first step and at every
  \<open>reportEvery\<close>-th step after it.
\<close>

definition spec_report_iterations :: "nat \<Rightarrow> int \<Rightarrow> int list" where
  "spec_report_iterations reportEvery n_iter =
     map int (filter (\<lambda>i. i mod reportEvery = 0) [0..<nat n_iter])"

text \<open>A 1x3 ratings matrix and a 3x3 mask: the first dimension of the mask does not fit.\<close>

definition row_Y :: "real ndarray" where
  "row_Y = \<lparr>shape = (1, 3), rows = [[1, 2, 3]]\<rparr>"

definition square_R :: "bool ndarray" where
  "square_R = \<lparr>shape = (3, 3), rows = [[True, True, True], [True, True, True], [True, True, True]]\<rparr>"


section \<open>The arithmetic of the entries as a parameter\<close>

text \<open>
  The arrays of the notebook hold IEEE-754 doubles: they have two infinities and NaN, and
  every operation rounds. The definitions above compute with real numbers. They give the
  shapes, the errors, the order of the writes and the algebra of the formulas, but not what
  a NaN, an infinity or a rounded sum does. For what depends on that, the functions of the
  notebook are embedded a second time, operation by operation as before, over an arithmetic
  \<open>ar\<close> that is a parameter: the operations on entries, the conversion of a mask entry
  (\<open>True\<close> is \<open>1.0\<close>, \<open>False\<close> is \<open>0.0\<close>), and the three reductions of numpy that the
  functions call, whose order of summation numpy leaves open: the inner product inside
  \<open>@\<close>, \<open>np.sum\<close> and \<open>np.linalg.norm\<close>. Doubles are taken as numeric values, so \<open>-0.0\<close>
  and \<open>0.0\<close> are one value.
\<close>

record 'a arith =
  a_zero :: 'a
  a_add :: "'a \<Rightarrow> 'a \<Rightarrow> 'a"
  a_sub :: "'a \<Rightarrow> 'a \<Rightarrow> 'a"
  a_mul :: "'a \<Rightarrow> 'a \<Rightarrow> 'a"
  a_half :: "'a \<Rightarrow> 'a"
  a_square :: "'a \<Rightarrow> 'a"
  a_mask :: "bool \<Rightarrow> 'a"
  a_dot :: "'a list \<Rightarrow> 'a list \<Rightarrow> 'a"
  a_total :: "'a list list \<Rightarrow> 'a"
  a_norm :: "'a list list \<Rightarrow> 'a"
  a_finite :: "'a \<Rightarrow> bool"
  a_nan :: "'a \<Rightarrow> bool"
  a_nonneg :: "'a \<Rightarrow> bool"

text \<open>\<open>A @ B\<close>, \<open>A - B\<close>, \<open>A + B\<close>, \<open>A * mask\<close>, \<open>c * A\<close> and \<open>A -= B\<close> over \<open>ar\<close>.\<close>

definition matmul_in :: "'a arith \<Rightarrow> 'a ndarray \<Rightarrow> 'a ndarray \<Rightarrow> error + 'a ndarray" where
  "matmul_in ar A B =
     (if snd (shape A) \<noteq> fst (shape B) then Inl ValueError
      else Inr (tabulate (fst (shape A)) (snd (shape B))
                  (\<lambda>i j. a_dot ar (map (\<lambda>l. entry A i l) [0..<snd (shape A)])
                                   (map (\<lambda>l. entry B l j) [0..<snd (shape A)]))))"

definition subtract_in :: "'a arith \<Rightarrow> 'a ndarray \<Rightarrow> 'a ndarray \<Rightarrow> error + 'a ndarray" where
  "subtract_in ar = ufunc (a_sub ar)"

definition add_in :: "'a arith \<Rightarrow> 'a ndarray \<Rightarrow> 'a ndarray \<Rightarrow> error + 'a ndarray" where
  "add_in ar = ufunc (a_add ar)"

definition multiply_mask_in :: "'a arith \<Rightarrow> 'a ndarray \<Rightarrow> bool ndarray \<Rightarrow> error + 'a ndarray" where
  "multiply_mask_in ar = ufunc (\<lambda>x b. a_mul ar x (a_mask ar b))"

definition smul_in :: "'a arith \<Rightarrow> 'a \<Rightarrow> 'a ndarray \<Rightarrow> 'a ndarray" where
  "smul_in ar c A = tabulate (fst (shape A)) (snd (shape A)) (\<lambda>i j. a_mul ar c (entry A i j))"

definition isubtract_in :: "'a arith \<Rightarrow> 'a ndarray \<Rightarrow> 'a ndarray \<Rightarrow> error + 'a ndarray" where
  "isubtract_in ar A B =
     (if broadcast_shapes (shape A) (shape B) = Some (shape A)
      then Inr (tabulate (fst (shape A)) (snd (shape A)) (\<lambda>i j. a_sub ar (entry A i j) (bentry B i j)))
      else Inl ValueError)"

definition np_sum_in :: "'a arith \<Rightarrow> 'a ndarray \<Rightarrow> 'a" where
  "np_sum_in ar A = a_total ar (rows A)"

definition linalg_norm_in :: "'a arith \<Rightarrow> 'a ndarray \<Rightarrow> 'a" where
  "linalg_norm_in ar A = a_norm ar (rows A)"

text \<open>
  \<open>compute_cost\<close> over \<open>ar\<close>: \<open>X @ Theta.T - Y\<close>, then \<open>* has_rating\<close>, then
  \<open>np.sum(error @ error.T) / 2\<close>, and the penalty
  \<open>reg / 2 * (np.linalg.norm(X) ** 2 + np.linalg.norm(Theta) ** 2)\<close>.
\<close>

definition residual_in :: "'a arith \<Rightarrow> 'a ndarray \<Rightarrow> 'a ndarray \<Rightarrow> 'a ndarray \<Rightarrow> error + 'a ndarray" where
  "residual_in ar X Theta Y = bindE (matmul_in ar X (np_T Theta)) (\<lambda>P. subtract_in ar P Y)"

definition masked_error_in :: "'a arith \<Rightarrow> 'a ndarray \<Rightarrow> 'a ndarray \<Rightarrow> 'a ndarray \<Rightarrow> bool ndarray \<Rightarrow> error + 'a ndarray" where
  "masked_error_in ar X Theta Y has_rating =
     bindE (residual_in ar X Theta Y) (\<lambda>D. multiply_mask_in ar D has_rating)"

definition penalty_in :: "'a arith \<Rightarrow> 'a ndarray \<Rightarrow> 'a ndarray \<Rightarrow> 'a \<Rightarrow> 'a" where
  "penalty_in ar X Theta reg =
     a_mul ar (a_half ar reg)
       (a_add ar (a_square ar (linalg_norm_in ar X)) (a_square ar (linalg_norm_in ar Theta)))"

definition compute_cost_in :: "'a arith \<Rightarrow> 'a ndarray \<Rightarrow> 'a ndarray \<Rightarrow> 'a ndarray \<Rightarrow> bool ndarray \<Rightarrow> 'a \<Rightarrow> error + 'a" where
  "compute_cost_in ar X Theta Y has_rating reg =
     bindE (masked_error_in ar X Theta Y has_rating) (\<lambda>err.
     bindE (matmul_in ar err (np_T err)) (\<lambda>G.
       let squared_diff = a_half ar (np_sum_in ar G);
           penalty = penalty_in ar X Theta reg
       in Inr (a_add ar squared_diff penalty)))"

text \<open>\<open>update\<close> over \<open>ar\<close>: both gradients, then the two writes in place.\<close>

definition update_dX_in :: "'a arith \<Rightarrow> 'a ndarray \<Rightarrow> 'a ndarray \<Rightarrow> 'a ndarray \<Rightarrow> bool ndarray \<Rightarrow> 'a \<Rightarrow> error + 'a ndarray" where
  "update_dX_in ar X Theta Y has_rating reg =
     bindE (masked_error_in ar X Theta Y has_rating) (\<lambda>err.
     bindE (matmul_in ar err Theta) (\<lambda>G.
     add_in ar G (smul_in ar reg X)))"

definition update_dTheta_in :: "'a arith \<Rightarrow> 'a ndarray \<Rightarrow> 'a ndarray \<Rightarrow> 'a ndarray \<Rightarrow> bool ndarray \<Rightarrow> 'a \<Rightarrow> error + 'a ndarray" where
  "update_dTheta_in ar X Theta Y has_rating reg =
     bindE (masked_error_in ar X Theta Y has_rating) (\<lambda>err.
     bindE (matmul_in ar (np_T err) X) (\<lambda>G.
     add_in ar G (smul_in ar reg Theta)))"

definition update_in :: "'a arith \<Rightarrow> (ref \<Rightarrow> 'a ndarray) \<Rightarrow> ref \<Rightarrow> ref \<Rightarrow> 'a ndarray \<Rightarrow> bool ndarray \<Rightarrow> 'a \<Rightarrow> 'a \<Rightarrow>
    (error + ref \<times> ref) \<times> (ref \<Rightarrow> 'a ndarray)" where
  "update_in ar s X Theta Y has_rating reg alpha =
     (case update_dX_in ar (s X) (s Theta) Y has_rating reg of
        Inl e \<Rightarrow> (Inl e, s)
      | Inr dX \<Rightarrow>
     (case update_dTheta_in ar (s X) (s Theta) Y has_rating reg of
        Inl e \<Rightarrow> (Inl e, s)
      | Inr dTheta \<Rightarrow>
     (case isubtract_in ar (s X) (smul_in ar alpha dX) of
        Inl e \<Rightarrow> (Inl e, s)
      | Inr X' \<Rightarrow>
     (let s1 = s(X := X') in
      case isubtract_in ar (s1 Theta) (smul_in ar alpha dTheta) of
        Inl e \<Rightarrow> (Inl e, s1)
      | Inr Theta' \<Rightarrow> (Inr (X, Theta), s1(Theta := Theta'))))))"

text \<open>
  The real numbers are one such arithmetic, with nothing infinite and no NaN. Over it the
  second embedding is the first one (\<open>compute_cost_in_real\<close>, \<open>update_in_real\<close> below).
\<close>

definition real_arith :: "real arith" where
  "real_arith = \<lparr>a_zero = 0, a_add = (\<lambda>x y. x + y), a_sub = (\<lambda>x y. x - y), a_mul = (\<lambda>x y. x * y),
     a_half = (\<lambda>x. x / 2), a_square = (\<lambda>x. x\<^sup>2), a_mask = (\<lambda>b. if b then 1 else 0),
     a_dot = (\<lambda>xs ys. sum_list (map2 (\<lambda>x y. x * y) xs ys)),
     a_total = (\<lambda>rs. sum_list (map sum_list rs)),
     a_norm = (\<lambda>rs. sqrt (sum_list (map (\<lambda>r. sum_list (map (\<lambda>x. x * x) r)) rs))),
     a_finite = (\<lambda>x. True), a_nan = (\<lambda>x. False), a_nonneg = (\<lambda>x. 0 \<le> x)\<rparr>"

text \<open>
  What the results below use of the arithmetic. Both lists hold of IEEE-754 doubles in
  every rounding mode and for every order of summation. First the facts about zero: zero is
  finite; a finite value times \<open>0.0\<close> is zero and any value times \<open>1.0\<close> is itself; a
  finite value minus itself is zero; zero times a finite value is zero; zero plus \<open>x\<close> is
  \<open>x\<close>; half of zero is zero; and a sum of zeros is zero. None of them holds without
  \<open>finite\<close>: \<open>nan * 0.0\<close>, \<open>inf * 0.0\<close> and \<open>inf - inf\<close> are NaN.
\<close>

definition ieee_zero :: "'a arith \<Rightarrow> bool" where
  "ieee_zero ar \<longleftrightarrow>
     a_finite ar (a_zero ar) \<and>
     (\<forall>x. a_finite ar x \<longrightarrow> a_mul ar x (a_mask ar False) = a_zero ar) \<and>
     (\<forall>x. a_mul ar x (a_mask ar True) = x) \<and>
     (\<forall>x. a_finite ar x \<longrightarrow> a_sub ar x x = a_zero ar) \<and>
     (\<forall>x. a_finite ar x \<longrightarrow> a_mul ar (a_zero ar) x = a_zero ar) \<and>
     (\<forall>x. a_add ar (a_zero ar) x = x) \<and>
     a_half ar (a_zero ar) = a_zero ar \<and>
     (\<forall>xs ys. list_all (\<lambda>x. x = a_zero ar) xs \<and> list_all (\<lambda>y. y = a_zero ar) ys \<longrightarrow>
        a_dot ar xs ys = a_zero ar) \<and>
     (\<forall>rs. list_all (list_all (\<lambda>x. x = a_zero ar)) rs \<longrightarrow> a_total ar rs = a_zero ar)"

text \<open>
  Then the facts about signs: the sum of a 1x1 array is its entry; a norm is non-negative
  or NaN; squares, sums and halves of non-negative values are non-negative; a product of
  non-negative values is non-negative or NaN (\<open>0.0 * inf\<close>); the inner product of a vector
  with itself is non-negative or NaN; and NaN propagates.
\<close>

definition ieee_sign :: "'a arith \<Rightarrow> bool" where
  "ieee_sign ar \<longleftrightarrow>
     (\<forall>x. a_total ar [[x]] = x) \<and>
     (\<forall>rs. a_nonneg ar (a_norm ar rs) \<or> a_nan ar (a_norm ar rs)) \<and>
     (\<forall>x. (a_nonneg ar x \<longrightarrow> a_nonneg ar (a_square ar x)) \<and> (a_nan ar x \<longrightarrow> a_nan ar (a_square ar x))) \<and>
     (\<forall>x y. (a_nonneg ar x \<and> a_nonneg ar y \<longrightarrow> a_nonneg ar (a_add ar x y)) \<and>
            (a_nan ar x \<or> a_nan ar y \<longrightarrow> a_nan ar (a_add ar x y))) \<and>
     (\<forall>x. (a_nonneg ar x \<longrightarrow> a_nonneg ar (a_half ar x)) \<and> (a_nan ar x \<longrightarrow> a_nan ar (a_half ar x))) \<and>
     (\<forall>x y. (a_nonneg ar x \<and> a_nonneg ar y \<longrightarrow> a_nonneg ar (a_mul ar x y) \<or> a_nan ar (a_mul ar x y)) \<and>
            (a_nan ar y \<longrightarrow> a_nan ar (a_mul ar x y))) \<and>
     (\<forall>xs. a_nonneg ar (a_dot ar xs xs) \<or> a_nan ar (a_dot ar xs xs))"

definition product_in :: "'a arith \<Rightarrow> 'a ndarray \<Rightarrow> 'a ndarray \<Rightarrow> nat \<Rightarrow> nat \<Rightarrow> 'a" where
  "product_in ar X Theta i j =
     a_dot ar (map (\<lambda>l. entry X i l) [0..<snd (shape X)]) (map (\<lambda>l. entry Theta j l) [0..<snd (shape X)])"

definition conforming_shapes :: "'a ndarray \<Rightarrow> 'a ndarray \<Rightarrow> 'a ndarray \<Rightarrow> bool ndarray \<Rightarrow> bool" where
  "conforming_shapes X Theta Y R \<longleftrightarrow>
     snd (shape Theta) = snd (shape X) \<and> shape Y = (fst (shape X), fst (shape Theta)) \<and> shape R = shape Y"

text \<open>
  An arithmetic with the special values: the reals, both infinities and NaN, with the
  IEEE-754 rules for the special values and the exact result on finite operands.
  It is the arithmetic of doubles wherever these compute without rounding and overflow, as
  on the small integers of the examples below.
\<close>

datatype xr = Fin real | PInf | NInf | NaN

fun xr_neg :: "xr \<Rightarrow> xr" where
  "xr_neg (Fin a) = Fin (- a)"
| "xr_neg PInf = NInf"
| "xr_neg NInf = PInf"
| "xr_neg NaN = NaN"

fun xr_add :: "xr \<Rightarrow> xr \<Rightarrow> xr" where
  "xr_add (Fin a) (Fin b) = Fin (a + b)"
| "xr_add NaN y = NaN"
| "xr_add x NaN = NaN"
| "xr_add PInf NInf = NaN"
| "xr_add NInf PInf = NaN"
| "xr_add PInf y = PInf"
| "xr_add x PInf = PInf"
| "xr_add NInf y = NInf"
| "xr_add x NInf = NInf"

definition xr_sub :: "xr \<Rightarrow> xr \<Rightarrow> xr" where
  "xr_sub x y = xr_add x (xr_neg y)"

fun xr_scale_inf :: "real \<Rightarrow> xr" where
  "xr_scale_inf b = (if b = 0 then NaN else if 0 < b then PInf else NInf)"

fun xr_mul :: "xr \<Rightarrow> xr \<Rightarrow> xr" where
  "xr_mul (Fin a) (Fin b) = Fin (a * b)"
| "xr_mul NaN y = NaN"
| "xr_mul x NaN = NaN"
| "xr_mul PInf (Fin b) = xr_scale_inf b"
| "xr_mul (Fin a) PInf = xr_scale_inf a"
| "xr_mul NInf (Fin b) = xr_scale_inf (- b)"
| "xr_mul (Fin a) NInf = xr_scale_inf (- a)"
| "xr_mul PInf PInf = PInf"
| "xr_mul NInf NInf = PInf"
| "xr_mul PInf NInf = NInf"
| "xr_mul NInf PInf = NInf"

fun xr_half :: "xr \<Rightarrow> xr" where
  "xr_half (Fin a) = Fin (a / 2)"
| "xr_half x = x"

fun xr_sqrt :: "xr \<Rightarrow> xr" where
  "xr_sqrt (Fin a) = (if a < 0 then NaN else Fin (sqrt a))"
| "xr_sqrt PInf = PInf"
| "xr_sqrt NInf = NaN"
| "xr_sqrt NaN = NaN"

fun xr_finite :: "xr \<Rightarrow> bool" where
  "xr_finite (Fin a) = True"
| "xr_finite x = False"

fun xr_nonneg :: "xr \<Rightarrow> bool" where
  "xr_nonneg (Fin a) = (0 \<le> a)"
| "xr_nonneg PInf = True"
| "xr_nonneg x = False"

definition xr_arith :: "xr arith" where
  "xr_arith = \<lparr>a_zero = Fin 0, a_add = xr_add, a_sub = xr_sub, a_mul = xr_mul,
     a_half = xr_half, a_square = (\<lambda>x. xr_mul x x), a_mask = (\<lambda>b. Fin (if b then 1 else 0)),
     a_dot = (\<lambda>xs ys. foldl xr_add (Fin 0) (map2 xr_mul xs ys)),
     a_total = (\<lambda>rs. foldl xr_add (Fin 0) (concat rs)),
     a_norm = (\<lambda>rs. xr_sqrt (foldl xr_add (Fin 0) (map (\<lambda>x. xr_mul x x) (concat rs)))),
     a_finite = xr_finite, a_nan = (\<lambda>x. x = NaN), a_nonneg = xr_nonneg\<rparr>"

definition nn_or_nan :: "xr \<Rightarrow> bool" where
  "nn_or_nan x \<longleftrightarrow> xr_nonneg x \<or> x = NaN"

text \<open>
  Small arrays over this arithmetic: \<open>X\<close> is 1x1, \<open>Theta\<close> is 2x1, \<open>Y\<close> and the mask are
  1x2, and only the first entry of the row is observed. \<open>X @ Theta.T\<close> is \<open>[[3, 4]]\<close>.
\<close>

definition fl_X :: "xr ndarray" where
  "fl_X = \<lparr>shape = (1, 1), rows = [[Fin 1]]\<rparr>"

definition fl_Theta :: "xr ndarray" where
  "fl_Theta = \<lparr>shape = (2, 1), rows = [[Fin 3], [Fin 4]]\<rparr>"

definition fl_Y :: "xr \<Rightarrow> xr ndarray" where
  "fl_Y u = \<lparr>shape = (1, 2), rows = [[Fin 1, u]]\<rparr>"

definition fl_R :: "bool ndarray" where
  "fl_R = \<lparr>shape = (1, 2), rows = [[True, False]]\<rparr>"

definition fl_none :: "bool ndarray" where
  "fl_none = \<lparr>shape = (1, 2), rows = [[False, False]]\<rparr>"

definition rec_Theta :: "xr ndarray" where
  "rec_Theta = \<lparr>shape = (2, 1), rows = [[Fin 1], [Fin 3]]\<rparr>"

definition inf_Theta :: "xr ndarray" where
  "inf_Theta = \<lparr>shape = (2, 1), rows = [[Fin 1], [PInf]]\<rparr>"

definition inf_X :: "xr ndarray" where
  "inf_X = \<lparr>shape = (1, 1), rows = [[PInf]]\<rparr>"

definition fzero_X :: "xr ndarray" where
  "fzero_X = \<lparr>shape = (1, 1), rows = [[Fin 0]]\<rparr>"

lemmas fl_defs = fl_X_def fl_Theta_def fl_Y_def fl_R_def


section \<open>Basic facts about arrays\<close>

lemma shape_tabulate [simp]: "shape (tabulate n m f) = (n, m)"
  by (simp add: tabulate_def)

lemma entry_tabulate [simp]: "i < n \<Longrightarrow> j < m \<Longrightarrow> entry (tabulate n m f) i j = f i j"
  by (simp add: tabulate_def entry_def)

lemma valid_tabulate [simp]: "valid (tabulate n m f)"
  by (simp add: tabulate_def valid_def list_all_iff)

lemma sum_list_map_upt0: "sum_list (map f [0..<n]) = (\<Sum>i<n. f i)"
  by (induction n) simp_all

lemma tabulate_cong: "(\<And>i j. i < n \<Longrightarrow> j < m \<Longrightarrow> f i j = g i j) \<Longrightarrow> tabulate n m f = tabulate n m g"
  by (simp add: tabulate_def)

lemma np_sum_tabulate: "np_sum (tabulate n m f) = (\<Sum>i<n. \<Sum>j<m. f i j)"
  by (simp add: np_sum_def tabulate_def comp_def sum_list_map_upt0)

lemma valid_rows: "valid A \<Longrightarrow> rows A = map (\<lambda>i. map (entry A i) [0..<snd (shape A)]) [0..<fst (shape A)]"
  by (auto simp: valid_def entry_def list_all_iff intro!: nth_equalityI)

lemma frob2_nonneg: "0 \<le> frob2 A"
  by (simp add: frob2_def sum_nonneg)

lemma linalg_norm_sq: "valid A \<Longrightarrow> (linalg_norm A)\<^sup>2 = frob2 A"
proof -
  assume v: "valid A"
  have "(\<Sum>r\<leftarrow>rows A. \<Sum>x\<leftarrow>r. x * x) = frob2 A"
    by (subst valid_rows[OF v]) (simp add: frob2_def comp_def sum_list_map_upt0 power2_eq_square)
  then show ?thesis by (simp add: linalg_norm_def frob2_nonneg)
qed

lemma broadcast_same [simp]: "broadcast_shapes s s = Some s"
  by (simp add: broadcast_shapes_def broadcast_dim_def)

lemma bentry_in_range: "i < fst (shape A) \<Longrightarrow> j < snd (shape A) \<Longrightarrow> bentry A i j = entry A i j"
  by (auto simp: bentry_def)

lemma ufunc_same_shape:
  "shape B = shape A \<Longrightarrow>
   ufunc f A B = Inr (tabulate (fst (shape A)) (snd (shape A)) (\<lambda>i j. f (entry A i j) (entry B i j)))"
  by (cases "shape A") (auto simp: ufunc_def bentry_in_range intro!: tabulate_cong)

lemma masked_error_conforming:
  assumes "conforming X Theta Y R"
  shows "masked_error X Theta Y R = Inr (tabulate (fst (shape X)) (fst (shape Theta)) (spec_E X Theta Y R))"
  using assms
  by (auto simp: conforming_def masked_error_def matmul_def np_T_def bindE_def subtract_def multiply_mask_def
      ufunc_same_shape spec_E_def sum_list_map_upt0 intro!: tabulate_cong)

lemma sum_outer_square:
  fixes e :: "nat \<Rightarrow> nat \<Rightarrow> real"
  shows "(\<Sum>i<n. \<Sum>i'<n. \<Sum>j<m. e i j * e i' j) = (\<Sum>j<m. (\<Sum>i<n. e i j)\<^sup>2)"
proof -
  have "(\<Sum>i<n. \<Sum>i'<n. \<Sum>j<m. e i j * e i' j) = (\<Sum>i<n. \<Sum>j<m. \<Sum>i'<n. e i j * e i' j)"
    by (rule sum.cong[OF refl]) (rule sum.swap)
  also have "\<dots> = (\<Sum>j<m. \<Sum>i<n. \<Sum>i'<n. e i j * e i' j)"
    by (rule sum.swap)
  also have "\<dots> = (\<Sum>j<m. (\<Sum>i<n. e i j) * (\<Sum>i'<n. e i' j))"
    by (simp add: sum_product)
  finally show ?thesis by (simp add: power2_eq_square)
qed

lemma compute_cost_conforming:
  assumes c: "conforming X Theta Y R"
  shows "compute_cost X Theta Y R reg = Inr (cost_value X Theta Y R reg)"
proof -
  have vX: "valid X" and vT: "valid Theta" using c by (simp_all add: conforming_def)
  show ?thesis
    by (simp add: compute_cost_def masked_error_conforming[OF c] bindE_def matmul_def np_T_def cost_value_def
        np_sum_tabulate sum_list_map_upt0 linalg_norm_sq[OF vX] linalg_norm_sq[OF vT] sum_outer_square)
qed

lemma update_dX_conforming:
  assumes c: "conforming X Theta Y R"
  shows "update_dX X Theta Y R reg = Inr (tabulate (fst (shape X)) (snd (shape X)) (spec_dX X Theta Y R reg))"
  using c
  by (auto simp: update_dX_def masked_error_conforming[OF c] bindE_def matmul_def add_def smul_def
      ufunc_same_shape conforming_def spec_dX_def sum_list_map_upt0 intro!: tabulate_cong)

lemma update_dTheta_conforming:
  assumes c: "conforming X Theta Y R"
  shows "update_dTheta X Theta Y R reg =
    Inr (tabulate (fst (shape Theta)) (snd (shape Theta)) (spec_dTheta X Theta Y R reg))"
  using c
  by (auto simp: update_dTheta_def masked_error_conforming[OF c] bindE_def matmul_def np_T_def add_def smul_def
      ufunc_same_shape conforming_def spec_dTheta_def sum_list_map_upt0 intro!: tabulate_cong)

lemma isubtract_smul_tabulate:
  "shape A = (n, m) \<Longrightarrow>
   isubtract A (smul c (tabulate n m f)) = Inr (tabulate n m (\<lambda>i j. entry A i j - c * f i j))"
  by (auto simp: isubtract_def smul_def bentry_in_range intro!: tabulate_cong)

lemma update_conforming:
  assumes c: "conforming (s X) (s Theta) Y R" and ne: "X \<noteq> Theta"
  shows "update s X Theta Y R reg alpha =
    (Inr (X, Theta),
     s(X := fst (spec_updateStep Y R reg alpha (s X, s Theta)),
       Theta := snd (spec_updateStep Y R reg alpha (s X, s Theta))))"
  using ne
  by (simp add: update_def update_dX_conforming[OF c] update_dTheta_conforming[OF c]
      isubtract_smul_tabulate[of _ "fst (shape (s X))" "snd (shape (s X))"]
      isubtract_smul_tabulate[of _ "fst (shape (s Theta))" "snd (shape (s Theta))"]
      spec_updateStep_def Let_def)

lemma conforming_step:
  assumes "conforming X Theta Y R"
  shows "conforming (fst (spec_updateStep Y R reg alpha (X, Theta))) (snd (spec_updateStep Y R reg alpha (X, Theta))) Y R"
  using assms by (simp add: conforming_def spec_updateStep_def Let_def)

lemma conforming_funpow:
  assumes "conforming (fst p) (snd p) Y R"
  shows "conforming (fst ((spec_updateStep Y R reg alpha ^^ n) p)) (snd ((spec_updateStep Y R reg alpha ^^ n) p)) Y R"
proof (induction n)
  case 0 then show ?case using assms by simp
next
  case (Suc n)
  show ?case using conforming_step[OF Suc.IH, where reg=reg and alpha=alpha] by simp
qed

lemma report_guard: "(int a = 0 \<or> int a mod 100 = 0) \<longleftrightarrow> a mod 100 = 0"
  by (metis mod_0 of_nat_0 of_nat_eq_iff of_nat_mod of_nat_numeral)

lemma train_loop_step:
  assumes cs: "conforming (s 0) (s 1) Y R"
  shows "train_loop Y R reg alpha (int a # js) s 0 1 out =
     train_loop Y R reg alpha js
       (s(0 := fst (spec_updateStep Y R reg alpha (s 0, s 1)), 1 := snd (spec_updateStep Y R reg alpha (s 0, s 1))))
       0 1 (out @ (if a mod 100 = 0 then [(int a, cost_value (s 0) (s 1) Y R reg)] else []))"
proof -
  have up: "update s 0 1 Y R reg alpha =
      (Inr (0, 1), s(0 := fst (spec_updateStep Y R reg alpha (s 0, s 1)), 1 := snd (spec_updateStep Y R reg alpha (s 0, s 1))))"
    using update_conforming[OF cs, where reg=reg and alpha=alpha] by simp
  show ?thesis
    by (simp only: train_loop.simps report_guard compute_cost_conforming[OF cs] up bindE_def
        sum.case prod.case if_distrib[of "\<lambda>r. case_sum _ _ r"] append_Nil2 cong: if_cong)
       (simp)
qed

lemma train_loop_closed:
  assumes c: "conforming (fst p0) (snd p0) Y R"
    and st: "(s 0, s 1) = (spec_updateStep Y R reg alpha ^^ a) p0"
  shows "train_loop Y R reg alpha (map int [a..<a + n]) s 0 1 out =
    (Inr (s(0 := fst ((spec_updateStep Y R reg alpha ^^ (a + n)) p0),
            1 := snd ((spec_updateStep Y R reg alpha ^^ (a + n)) p0)), 0, 1),
     out @ map (\<lambda>i. (int i, cost_value (fst ((spec_updateStep Y R reg alpha ^^ i) p0))
                                    (snd ((spec_updateStep Y R reg alpha ^^ i) p0)) Y R reg))
             (filter (\<lambda>i. i mod 100 = 0) [a..<a + n]))"
  using st
proof (induction n arbitrary: a s out)
  case 0
  have "s 0 = fst ((spec_updateStep Y R reg alpha ^^ a) p0)" "s 1 = snd ((spec_updateStep Y R reg alpha ^^ a) p0)"
    using "0.prems" by (metis fst_conv, metis snd_conv)
  then show ?case by (simp add: fun_upd_idem)
next
  case (Suc n)
  let ?F = "spec_updateStep Y R reg alpha"
  have s0: "s 0 = fst ((?F ^^ a) p0)" and s1: "s 1 = snd ((?F ^^ a) p0)"
    using Suc.prems by (metis fst_conv, metis snd_conv)
  have cs: "conforming (s 0) (s 1) Y R"
    using conforming_funpow[OF c, where reg=reg and alpha=alpha and n=a] by (simp only: s0 s1)
  let ?s' = "s(0 := fst (?F (s 0, s 1)), 1 := snd (?F (s 0, s 1)))"
  have st': "(?s' 0, ?s' 1) = (?F ^^ Suc a) p0"
    using Suc.prems by (simp add: s0 s1 del: One_nat_def)
  have l: "[a..<a + Suc n] = a # [Suc a..<Suc a + n]"
    by (simp add: upt_conv_Cons)
  have upd: "?s'(0 := x, 1 := y) = s(0 := x, 1 := y)" for x y
    by (rule ext) simp
  show ?case
    unfolding l list.map train_loop_step[OF cs] Suc.IH[OF st'] upd
    by (auto simp add: s0 s1 fun_eq_iff simp del: funpow.simps One_nat_def)
qed

lemma conforming_init:
  assumes "valid Y" "valid R" "shape R = shape Y"
  shows "conforming (fst (init_factors g Y k)) (snd (init_factors g Y k)) Y R"
  using assms by (simp add: conforming_def init_factors_def randn_def)

lemma train_closed:
  assumes vY: "valid Y" and vR: "valid R" and sh: "shape R = shape Y" and k: "0 \<le> n_factor"
  shows "train g Y R reg alpha n_factor n_iter =
    (Inr ((spec_updateStep Y R reg alpha ^^ nat n_iter) (init_factors g Y (nat n_factor))),
     map (\<lambda>i. (int i, cost_value (fst ((spec_updateStep Y R reg alpha ^^ i) (init_factors g Y (nat n_factor))))
                                  (snd ((spec_updateStep Y R reg alpha ^^ i) (init_factors g Y (nat n_factor)))) Y R reg))
         (filter (\<lambda>i. i mod 100 = 0) [0..<nat n_iter]))"
proof -
  let ?X0 = "fst (randn g (fst (shape Y)) (nat n_factor))"
  let ?T0 = "fst (randn (snd (randn g (fst (shape Y)) (nat n_factor))) (snd (shape Y)) (nat n_factor))"
  let ?s = "\<lambda>r::nat. if r = 0 then ?X0 else ?T0"
  have p0: "init_factors g Y (nat n_factor) = (?X0, ?T0)"
    by (simp add: init_factors_def)
  have c0: "conforming (fst (?X0, ?T0)) (snd (?X0, ?T0)) Y R"
    using conforming_init[OF vY vR sh, of g "nat n_factor"] unfolding p0 .
  have st: "(?s 0, ?s 1) = (spec_updateStep Y R reg alpha ^^ 0) (?X0, ?T0)" by simp
  have loop: "train_loop Y R reg alpha (py_range n_iter) ?s 0 1 [] =
    (Inr (?s(0 := fst ((spec_updateStep Y R reg alpha ^^ nat n_iter) (?X0, ?T0)),
             1 := snd ((spec_updateStep Y R reg alpha ^^ nat n_iter) (?X0, ?T0))), 0, 1),
     map (\<lambda>i. (int i, cost_value (fst ((spec_updateStep Y R reg alpha ^^ i) (?X0, ?T0)))
                                  (snd ((spec_updateStep Y R reg alpha ^^ i) (?X0, ?T0))) Y R reg))
         (filter (\<lambda>i. i mod 100 = 0) [0..<nat n_iter]))"
    using train_loop_closed[OF c0, where s="?s" and a=0 and n="nat n_iter" and out="[]" and reg=reg and alpha=alpha, OF st]
    by (simp add: py_range_def)
  have tr: "train g Y R reg alpha n_factor n_iter =
     (case train_loop Y R reg alpha (py_range n_iter) ?s 0 1 [] of
              (Inl e, out) \<Rightarrow> (Inl e, out)
            | (Inr (s', X, Theta), out) \<Rightarrow> (Inr (s' X, s' Theta), out))"
    using k by (simp add: train_def Let_def split_beta)
  show ?thesis unfolding tr loop p0 by simp
qed


lemma shape_funpow:
  "shape (fst ((spec_updateStep Y R reg alpha ^^ n) p)) = shape (fst p) \<and>
   shape (snd ((spec_updateStep Y R reg alpha ^^ n) p)) = shape (snd p)"
  by (induction n) (simp_all add: spec_updateStep_def Let_def)

lemma shape_init:
  "shape (fst (init_factors g Y k)) = (fst (shape Y), k) \<and> shape (snd (init_factors g Y k)) = (snd (shape Y), k)"
  by (simp add: init_factors_def randn_def)

lemma train_no_iterations:
  assumes "0 \<le> n_factor" "n_iter \<le> 0"
  shows "train g Y R reg alpha n_factor n_iter = (Inr (init_factors g Y (nat n_factor)), [])"
  using assms by (simp add: train_def py_range_def init_factors_def Let_def split_beta)


section \<open>The cost against the specification's formula\<close>

lemma cost_col: "compute_cost (col_X t) col_Theta col_Y col_R 0 = Inr ((t + 1)\<^sup>2 / 2)"
  by (simp add: col_defs eval_defs power2_eq_square algebra_simps)

lemma spec_cost_col: "spec_cost (col_X t) col_Theta col_Y col_R 0 = (t\<^sup>2 + 1) / 2"
  by (simp add: col_defs spec_cost_def spec_E_def frob2_def entry_def numeral_2_eq_2)

lemma dX_col: "update_dX (col_X 1) col_Theta col_Y col_R 0 = Inr \<lparr>shape = (2, 1), rows = [[1], [1]]\<rparr>"
  by (simp add: col_defs eval_defs)

text \<open>
  C1. The claim is that \<open>compute_cost\<close> returns the specification's cost
  \<open>(1/2) \<Sum> E[i,j]\<^sup>2 + (reg/2) (\<parallel>X\<parallel>\<^sup>2 + \<parallel>Theta\<parallel>\<^sup>2)\<close>. The code sums every entry of
  \<open>E E\<^sup>T\<close>, not its diagonal: with two items whose residuals are both 1 it returns 2
  where the formula gives 1.
\<close>

theorem compute_cost_differs_from_spec_cost:
  "compute_cost (col_X 1) col_Theta col_Y col_R 0 = Inr 2 \<and>
   spec_cost (col_X 1) col_Theta col_Y col_R 0 = 1"
  by (simp add: cost_col spec_cost_col)

text \<open>
  C3. The claim is that \<open>dX\<close> and \<open>dTheta\<close> are the partial derivatives of the value
  \<open>compute_cost\<close> returns. At the same input the derivative of the returned cost in
  the entry \<open>X[0,0]\<close> is 2, while \<open>dX[0,0]\<close> is 1, which is the derivative of the
  specification's cost.
\<close>

theorem gradient_is_not_derivative_of_compute_cost:
  "((\<lambda>t. projr (compute_cost (col_X t) col_Theta col_Y col_R 0)) has_real_derivative 2) (at 1) \<and>
   ((\<lambda>t. spec_cost (col_X t) col_Theta col_Y col_R 0) has_real_derivative 1) (at 1) \<and>
   update_dX (col_X 1) col_Theta col_Y col_R 0 = Inr \<lparr>shape = (2, 1), rows = [[1], [1]]\<rparr>"
proof -
  have "((\<lambda>t::real. (t + 1)\<^sup>2 / 2) has_real_derivative 2) (at 1)"
    by (auto intro!: derivative_eq_intros)
  moreover have "((\<lambda>t::real. (t\<^sup>2 + 1) / 2) has_real_derivative 1) (at 1)"
    by (auto intro!: derivative_eq_intros)
  ultimately show ?thesis
    by (simp add: cost_col spec_cost_col dX_col)
qed


section \<open>Shapes and errors\<close>

lemma broadcast_dim_idem: "broadcast_dim p a = Some n \<Longrightarrow> broadcast_dim n a = Some n"
  by (auto simp: broadcast_dim_def split: if_splits)

lemma broadcast_dim_index: "broadcast_dim p a = Some n \<Longrightarrow> i < n \<Longrightarrow> (if a = 1 then 0 else i) < a"
  by (auto simp: broadcast_dim_def split: if_splits)

lemma broadcast_shapes_Some:
  "broadcast_shapes s t = Some (n, m) \<longleftrightarrow> broadcast_dim (fst s) (fst t) = Some n \<and> broadcast_dim (snd s) (snd t) = Some m"
  by (auto simp: broadcast_shapes_def split: option.splits)


lemma broadcast3_compatible:
  "(\<exists>n1 n. broadcast_dim p a = Some n1 \<and> broadcast_dim n1 c = Some n) \<longleftrightarrow> compatible3 p a c"
  by (auto simp: broadcast_dim_def compatible3_def split: if_splits)

lemma broadcast3_fits:
  "(\<exists>n1. broadcast_dim p a = Some n1 \<and> broadcast_dim n1 c = Some p) \<longleftrightarrow> fits a p \<and> fits c p"
  by (auto simp: broadcast_dim_def fits_def split: if_splits)

lemma ufunc_Inr_iff:
  "ufunc f A B = Inr C \<longleftrightarrow>
     (\<exists>n m. broadcast_dim (fst (shape A)) (fst (shape B)) = Some n \<and>
            broadcast_dim (snd (shape A)) (snd (shape B)) = Some m \<and>
            C = tabulate n m (\<lambda>i j. f (bentry A i j) (bentry B i j)))"
  by (auto simp: ufunc_def broadcast_shapes_def split: option.splits)

lemma matmul_Inr_iff:
  "matmul A B = Inr C \<longleftrightarrow> snd (shape A) = fst (shape B) \<and>
     C = tabulate (fst (shape A)) (snd (shape B)) (\<lambda>i j. sum_list (map (\<lambda>l. entry A i l * entry B l j) [0..<snd (shape A)]))"
  by (auto simp: matmul_def)

lemma bindE_Inr_iff: "bindE r f = Inr y \<longleftrightarrow> (\<exists>v. r = Inr v \<and> f v = Inr y)"
  by (cases r) (simp_all add: bindE_def)

lemma not_Inr_error: "(r :: error + 'a) = Inl ValueError \<longleftrightarrow> (\<forall>v. r \<noteq> Inr v)"
  by (cases r) (auto intro: error.exhaust)

lemma masked_error_shape_iff:
  "(\<exists>E. masked_error X Theta Y R = Inr E \<and> shape E = (n, m)) \<longleftrightarrow>
     snd (shape X) = snd (shape Theta) \<and>
     (\<exists>n1. broadcast_dim (fst (shape X)) (fst (shape Y)) = Some n1 \<and> broadcast_dim n1 (fst (shape R)) = Some n) \<and>
     (\<exists>m1. broadcast_dim (fst (shape Theta)) (snd (shape Y)) = Some m1 \<and> broadcast_dim m1 (snd (shape R)) = Some m)"
  by (auto simp: masked_error_def bindE_Inr_iff matmul_Inr_iff ufunc_Inr_iff subtract_def multiply_mask_def np_T_def)

lemma masked_error_succeeds_iff:
  "(\<exists>E. masked_error X Theta Y R = Inr E) \<longleftrightarrow>
     snd (shape X) = snd (shape Theta) \<and>
     compatible3 (fst (shape X)) (fst (shape Y)) (fst (shape R)) \<and>
     compatible3 (fst (shape Theta)) (snd (shape Y)) (snd (shape R))"
proof -
  have "(\<exists>E. masked_error X Theta Y R = Inr E) \<longleftrightarrow>
        (\<exists>n m. \<exists>E. masked_error X Theta Y R = Inr E \<and> shape E = (n, m))"
    by (metis surj_pair)
  also have "\<dots> \<longleftrightarrow> snd (shape X) = snd (shape Theta) \<and>
     compatible3 (fst (shape X)) (fst (shape Y)) (fst (shape R)) \<and>
     compatible3 (fst (shape Theta)) (snd (shape Y)) (snd (shape R))"
    unfolding masked_error_shape_iff broadcast3_compatible[symmetric] by blast
  finally show ?thesis .
qed

lemma compute_cost_succeeds_iff:
  "(\<exists>c. compute_cost X Theta Y R reg = Inr c) \<longleftrightarrow> (\<exists>E. masked_error X Theta Y R = Inr E)"
  by (auto simp: compute_cost_def bindE_Inr_iff matmul_Inr_iff np_T_def Let_def)

lemma compute_cost_raises_iff:
  "compute_cost X Theta Y R reg = Inl ValueError \<longleftrightarrow>
     \<not> (snd (shape X) = snd (shape Theta) \<and>
        compatible3 (fst (shape X)) (fst (shape Y)) (fst (shape R)) \<and>
        compatible3 (fst (shape Theta)) (snd (shape Y)) (snd (shape R)))"
  unfolding masked_error_succeeds_iff[symmetric] compute_cost_succeeds_iff[symmetric, of X Theta Y R reg]
  by (simp add: not_Inr_error)

lemma masked_error_fits_iff:
  "(\<exists>E. masked_error X Theta Y R = Inr E \<and> shape E = (fst (shape X), fst (shape Theta))) \<longleftrightarrow>
     snd (shape X) = snd (shape Theta) \<and>
     fits (fst (shape Y)) (fst (shape X)) \<and> fits (fst (shape R)) (fst (shape X)) \<and>
     fits (snd (shape Y)) (fst (shape Theta)) \<and> fits (snd (shape R)) (fst (shape Theta))"
  unfolding masked_error_shape_iff broadcast3_fits by blast


lemma isubtract_same_shape:
  "shape B = shape A \<Longrightarrow> \<exists>C. isubtract A B = Inr C \<and> shape C = shape A"
  by (simp add: isubtract_def)

lemma update_succeeds:
  assumes "shapes_fit (s x) (s t) Y R"
  shows "\<exists>s'. update s x t Y R reg alpha = (Inr (x, t), s') \<and> shape (s' x) = shape (s x) \<and> shape (s' t) = shape (s t)"
proof -
  obtain E where E: "masked_error (s x) (s t) Y R = Inr E" "shape E = (fst (shape (s x)), fst (shape (s t)))"
    using assms masked_error_fits_iff[of "s x" "s t" Y R] unfolding shapes_fit_def by blast
  have k: "snd (shape (s x)) = snd (shape (s t))" using assms by (simp add: shapes_fit_def)
  obtain dX where dX: "update_dX (s x) (s t) Y R reg = Inr dX" "shape dX = shape (s x)"
    using E k by (simp add: update_dX_def bindE_def matmul_def add_def smul_def ufunc_same_shape prod_eq_iff)
  obtain dT where dT: "update_dTheta (s x) (s t) Y R reg = Inr dT" "shape dT = shape (s t)"
    using E k by (simp add: update_dTheta_def bindE_def matmul_def np_T_def add_def smul_def ufunc_same_shape prod_eq_iff)
  obtain X' where X': "isubtract (s x) (smul alpha dX) = Inr X'" "shape X' = shape (s x)"
    using isubtract_same_shape[of "smul alpha dX" "s x"] dX(2) by (auto simp: smul_def)
  have "shape (smul alpha dT) = shape ((s(x := X')) t)"
    using dT(2) X'(2) by (simp add: smul_def)
  then obtain T' where T': "isubtract ((s(x := X')) t) (smul alpha dT) = Inr T'" "shape T' = shape ((s(x := X')) t)"
    using isubtract_same_shape[of "smul alpha dT" "(s(x := X')) t"] by auto
  have "update s x t Y R reg alpha = (Inr (x, t), (s(x := X'))(t := T'))"
    unfolding update_def dX(1) dT(1) sum.case X'(1) Let_def T'(1) by simp
  moreover have "shape (((s(x := X'))(t := T')) x) = shape (s x)" "shape (((s(x := X'))(t := T')) t) = shape (s t)"
    using X'(2) T'(2) by auto
  ultimately show ?thesis by blast
qed

lemma update_raises:
  assumes "\<not> shapes_fit (s x) (s t) Y R"
  shows "update s x t Y R reg alpha = (Inl ValueError, s)"
proof (cases "masked_error (s x) (s t) Y R")
  case (Inl e)
  then show ?thesis by (cases e) (simp add: update_def update_dX_def bindE_def)
next
  case (Inr E)
  have ne: "shape E \<noteq> (fst (shape (s x)), fst (shape (s t)))"
    using assms Inr masked_error_fits_iff[of "s x" "s t" Y R] unfolding shapes_fit_def by auto
  show ?thesis
  proof (cases "snd (shape E) = fst (shape (s t))")
    case False
    then show ?thesis using Inr by (simp add: update_def update_dX_def bindE_def matmul_def)
  next
    case True
    then have "fst (shape E) \<noteq> fst (shape (s x))" using ne by (cases "shape E") auto
    then have dT: "update_dTheta (s x) (s t) Y R reg = Inl ValueError"
      using Inr by (simp add: update_dTheta_def bindE_def matmul_def np_T_def)
    show ?thesis
    proof (cases "update_dX (s x) (s t) Y R reg")
      case (Inl e)
      then show ?thesis by (cases e) (simp add: update_def)
    next
      case (Inr dX)
      then show ?thesis by (simp add: update_def dT)
    qed
  qed
qed

lemma conforming_shapes_fit: "conforming X Theta Y R \<Longrightarrow> shapes_fit X Theta Y R"
  by (auto simp: conforming_def shapes_fit_def fits_def)

lemma fits_compatible3: "fits a n \<Longrightarrow> fits c n \<Longrightarrow> compatible3 n a c"
  by (auto simp: fits_def compatible3_def)

lemma compute_cost_fits:
  assumes "shapes_fit X Theta Y R"
  shows "\<exists>c. compute_cost X Theta Y R reg = Inr c"
proof -
  have "compute_cost X Theta Y R reg \<noteq> Inl ValueError"
    using assms unfolding compute_cost_raises_iff shapes_fit_def by (simp add: fits_compatible3)
  then show ?thesis
    by (cases "compute_cost X Theta Y R reg") (auto intro: error.exhaust)
qed

lemma train_loop_succeeds:
  assumes "shapes_fit (s 0) (s 1) Y R"
  shows "\<exists>s' out'. train_loop Y R reg alpha js s 0 1 out = (Inr (s', 0, 1), out')"
  using assms
proof (induction js arbitrary: s out)
  case Nil
  then show ?case by simp
next
  case (Cons i js)
  obtain c where c: "compute_cost (s 0) (s 1) Y R reg = Inr c"
    using compute_cost_fits[OF Cons.prems] by blast
  obtain s' where s': "update s 0 1 Y R reg alpha = (Inr (0, 1), s')"
    "shape (s' 0) = shape (s 0)" "shape (s' 1) = shape (s 1)"
    using update_succeeds[OF Cons.prems, of reg alpha] by (elim exE conjE)
  have f: "shapes_fit (s' 0) (s' 1) Y R"
    using Cons.prems s'(2,3) by (simp add: shapes_fit_def)
  show ?case
  proof (cases "i = 0 \<or> i mod 100 = 0")
    case True
    then show ?thesis
      using Cons.IH[OF f, of "out @ [(i, c)]"]
      by (simp only: train_loop.simps if_True c bindE_def sum.case s' prod.case)
  next
    case False
    then show ?thesis
      using Cons.IH[OF f, of out]
      by (simp only: train_loop.simps if_False c bindE_def sum.case s' prod.case)
  qed
qed

lemma train_loop_first_fails:
  assumes "\<not> shapes_fit (s 0) (s 1) Y R"
  shows "train_loop Y R reg alpha (0 # js) s 0 1 [] =
     (Inl ValueError, case compute_cost (s 0) (s 1) Y R reg of Inl e \<Rightarrow> [] | Inr c \<Rightarrow> [(0, c)])"
proof (cases "compute_cost (s 0) (s 1) Y R reg")
  case (Inl e)
  then show ?thesis
    by (cases e) (simp only: train_loop.simps simp_thms if_True Inl bindE_def sum.case)
next
  case (Inr c)
  show ?thesis
    by (simp only: train_loop.simps simp_thms if_True Inr bindE_def sum.case update_raises[OF assms]
        prod.case append_Nil)
qed

lemma py_range_pos: "0 < n \<Longrightarrow> py_range n = 0 # map int [1..<nat n]"
  by (simp add: py_range_def upt_conv_Cons)

lemma py_range_nonpos: "n \<le> 0 \<Longrightarrow> py_range n = []"
  by (simp add: py_range_def)

lemma train_unfold:
  assumes "0 \<le> n_factor"
  shows "train g Y R reg alpha n_factor n_iter =
     (case train_loop Y R reg alpha (py_range n_iter)
             (\<lambda>r. if r = 0 then fst (init_factors g Y (nat n_factor)) else snd (init_factors g Y (nat n_factor))) 0 1 [] of
        (Inl e, out) \<Rightarrow> (Inl e, out)
      | (Inr (s', X, Theta), out) \<Rightarrow> (Inr (s' X, s' Theta), out))"
proof -
  let ?X0 = "fst (randn g (fst (shape Y)) (nat n_factor))"
  let ?T0 = "fst (randn (snd (randn g (fst (shape Y)) (nat n_factor))) (snd (shape Y)) (nat n_factor))"
  have p: "fst (init_factors g Y (nat n_factor)) = ?X0" "snd (init_factors g Y (nat n_factor)) = ?T0"
    by (simp_all add: init_factors_def)
  show ?thesis
    unfolding p using assms by (simp add: train_def Let_def split_beta)
qed

lemma init_shapes_fit:
  "shapes_fit (fst (init_factors g Y k)) (snd (init_factors g Y k)) Y R \<longleftrightarrow>
     fits (fst (shape R)) (fst (shape Y)) \<and> fits (snd (shape R)) (snd (shape Y))"
  by (simp add: shapes_fit_def shape_init fits_def)

lemma train_raises_iff:
  "fst (train g Y R reg alpha n_factor n_iter) = Inl ValueError \<longleftrightarrow>
     n_factor < 0 \<or> (0 < n_iter \<and> \<not> (fits (fst (shape R)) (fst (shape Y)) \<and> fits (snd (shape R)) (snd (shape Y))))"
proof (cases "n_factor < 0")
  case True
  then show ?thesis by (simp add: train_def)
next
  case False
  then have k: "0 \<le> n_factor" by simp
  let ?p0 = "init_factors g Y (nat n_factor)"
  let ?s = "\<lambda>r::nat. if r = 0 then fst ?p0 else snd ?p0"
  have s01: "?s 0 = fst ?p0" "?s 1 = snd ?p0" by simp_all
  show ?thesis
  proof (cases "0 < n_iter")
    case False
    then show ?thesis
      using k by (simp add: train_unfold py_range_nonpos)
  next
    case pos: True
    show ?thesis
    proof (cases "shapes_fit (fst ?p0) (snd ?p0) Y R")
      case True
      then have "shapes_fit (?s 0) (?s 1) Y R" by simp
      from train_loop_succeeds[OF this, of reg alpha "py_range n_iter" "[]"]
      obtain s' out' where "train_loop Y R reg alpha (py_range n_iter) ?s 0 1 [] = (Inr (s', 0, 1), out')"
        by (elim exE)
      then have "fst (train g Y R reg alpha n_factor n_iter) = Inr (s' 0, s' 1)"
        unfolding train_unfold[OF k] by simp
      then show ?thesis
        using True False pos unfolding init_shapes_fit by simp
    next
      case nf: False
      then have "\<not> shapes_fit (?s 0) (?s 1) Y R" by simp
      from train_loop_first_fails[OF this, of reg alpha "map int [1..<nat n_iter]"]
      have "fst (train g Y R reg alpha n_factor n_iter) = Inl ValueError"
        unfolding train_unfold[OF k] py_range_pos[OF pos] by simp
      then show ?thesis
        using nf pos unfolding init_shapes_fit by simp
    qed
  qed
qed

lemma train_partial_output:
  assumes "0 \<le> n_factor" "0 < n_iter"
    and "\<not> (fits (fst (shape R)) (fst (shape Y)) \<and> fits (snd (shape R)) (snd (shape Y)))"
  shows "snd (train g Y R reg alpha n_factor n_iter) =
     (case compute_cost (fst (init_factors g Y (nat n_factor))) (snd (init_factors g Y (nat n_factor))) Y R reg of
        Inl e \<Rightarrow> [] | Inr c \<Rightarrow> [(0, c)])"
proof -
  let ?p0 = "init_factors g Y (nat n_factor)"
  let ?s = "\<lambda>r::nat. if r = 0 then fst ?p0 else snd ?p0"
  have s01: "?s 0 = fst ?p0" "?s 1 = snd ?p0" by simp_all
  have "\<not> shapes_fit (fst ?p0) (snd ?p0) Y R"
    using assms(3) unfolding init_shapes_fit .
  then have "\<not> shapes_fit (?s 0) (?s 1) Y R" by simp
  from train_loop_first_fails[OF this, of reg alpha "map int [1..<nat n_iter]"]
  show ?thesis
    unfolding train_unfold[OF assms(1)] py_range_pos[OF assms(2)] by simp
qed

lemma train_row_cost:
  "compute_cost (fst (init_factors (\<lambda>n. real n) row_Y 2)) (snd (init_factors (\<lambda>n. real n) row_Y 2)) row_Y square_R 1
     = Inr (401 / 2)"
  by (simp add: init_factors_def randn_def row_Y_def square_R_def eval_defs)

text \<open>
  C4, as stated: every call with mismatched shapes signals an error, before any arithmetic.
  A 1x1 \<open>Y\<close> against a 2x3 mask is broadcast, and \<open>compute_cost\<close> returns a number. On
  a 1x3 \<open>Y\<close> and a 3x3 mask \<open>train\<close> first computes and prints the cost of iteration 0,
  and raises only then, in \<open>update\<close>; with \<open>n_iter = 0\<close> it returns its two random
  matrices and raises nothing.
\<close>

theorem shape_mismatch_counterexample:
  "shape scalar_Y \<noteq> shape ex_R \<and> compute_cost ex_X ex_Theta scalar_Y ex_R 0 = Inr (41 / 2) \<and>
   shape row_Y \<noteq> shape square_R \<and>
   train (\<lambda>n. real n) row_Y square_R 1 1 2 5 = (Inl ValueError, [(0, 401 / 2)]) \<and>
   train (\<lambda>n. real n) row_Y square_R 1 1 2 0 = (Inr (init_factors (\<lambda>n. real n) row_Y 2), [])"
proof -
  have 1: "shape scalar_Y \<noteq> shape ex_R" "compute_cost ex_X ex_Theta scalar_Y ex_R 0 = Inr (41 / 2)"
    by (simp_all add: ex_defs scalar_Y_def eval_defs)
  have 2: "shape row_Y \<noteq> shape square_R"
    by (simp add: row_Y_def square_R_def)
  have nfit: "\<not> (fits (fst (shape square_R)) (fst (shape row_Y)) \<and> fits (snd (shape square_R)) (snd (shape row_Y)))"
    by (simp add: fits_def row_Y_def square_R_def)
  have n2: "nat 2 = 2" by simp
  have f: "fst (train (\<lambda>n. real n) row_Y square_R 1 1 2 5) = Inl ValueError"
    unfolding train_raises_iff using nfit by simp
  have s: "snd (train (\<lambda>n. real n) row_Y square_R 1 1 2 5) = [(0, 401 / 2)]"
    using train_partial_output[of 2 5 square_R row_Y "\<lambda>n. real n" 1 1] nfit
    unfolding n2 train_row_cost by simp
  have 3: "train (\<lambda>n. real n) row_Y square_R 1 1 2 5 = (Inl ValueError, [(0, 401 / 2)])"
    using f s by (intro prod_eqI) simp_all
  have 4: "train (\<lambda>n. real n) row_Y square_R 1 1 2 0 = (Inr (init_factors (\<lambda>n. real n) row_Y 2), [])"
    using train_no_iterations[of 2 0 "\<lambda>n. real n" row_Y square_R 1 1] unfolding n2 by simp
  show ?thesis using 1 2 3 4 by (intro conjI)
qed

text \<open>
  C4, amended. No call checks the shapes up front; the error is numpy's \<open>ValueError\<close>,
  raised by the first operation that cannot combine its operands.

  \<^item> \<open>compute_cost\<close> raises exactly when \<open>X\<close> and \<open>Theta\<close> differ in their second
    dimension or the dimensions of \<open>X @ Theta.T\<close>, \<open>Y\<close> and \<open>R\<close> do not broadcast
    (they broadcast when they are pairwise equal or 1).
  \<^item> \<open>update\<close> raises exactly when \<open>X\<close> and \<open>Theta\<close> differ in their second dimension or
    a dimension of \<open>Y\<close> or \<open>R\<close> is neither 1 nor that of \<open>X @ Theta.T\<close>; when it
    raises, it has written nothing to \<open>X\<close> and \<open>Theta\<close>.
  \<^item> \<open>train\<close> raises exactly when \<open>n_factor\<close> is negative, or \<open>n_iter\<close> is positive and a
    dimension of the mask is neither 1 nor that of \<open>Y\<close>. For a negative \<open>n_factor\<close> it
    has printed nothing. Otherwise it raises in iteration 0, and it has printed the cost
    of iteration 0 before, unless \<open>compute_cost\<close> raised on these shapes.
  \<^item> With conforming shapes \<open>compute_cost\<close> and \<open>update\<close> do not raise, and with a mask of
    the shape of \<open>Y\<close> and \<open>n_factor \<ge> 0\<close> neither does \<open>train\<close>.
\<close>

theorem shape_errors:
  "(compute_cost X Theta Y R reg = Inl ValueError \<longleftrightarrow>
      \<not> (snd (shape X) = snd (shape Theta) \<and>
         compatible3 (fst (shape X)) (fst (shape Y)) (fst (shape R)) \<and>
         compatible3 (fst (shape Theta)) (snd (shape Y)) (snd (shape R)))) \<and>
   (fst (update s x t Y R reg alpha) = Inl ValueError \<longleftrightarrow> \<not> shapes_fit (s x) (s t) Y R) \<and>
   (fst (update s x t Y R reg alpha) = Inl ValueError \<longrightarrow> snd (update s x t Y R reg alpha) = s) \<and>
   (fst (train g Y R reg alpha n_factor n_iter) = Inl ValueError \<longleftrightarrow>
      n_factor < 0 \<or>
      (0 < n_iter \<and> \<not> (fits (fst (shape R)) (fst (shape Y)) \<and> fits (snd (shape R)) (snd (shape Y))))) \<and>
   (n_factor < 0 \<longrightarrow> snd (train g Y R reg alpha n_factor n_iter) = []) \<and>
   (0 \<le> n_factor \<and> 0 < n_iter \<and>
    \<not> (fits (fst (shape R)) (fst (shape Y)) \<and> fits (snd (shape R)) (snd (shape Y))) \<longrightarrow>
      snd (train g Y R reg alpha n_factor n_iter) =
        (case compute_cost (fst (init_factors g Y (nat n_factor))) (snd (init_factors g Y (nat n_factor))) Y R reg of
           Inl e \<Rightarrow> [] | Inr c \<Rightarrow> [(0, c)])) \<and>
   (conforming X Theta Y R \<longrightarrow> (\<exists>c. compute_cost X Theta Y R reg = Inr c)) \<and>
   (conforming (s x) (s t) Y R \<longrightarrow> (\<exists>s'. update s x t Y R reg alpha = (Inr (x, t), s'))) \<and>
   (shape R = shape Y \<and> 0 \<le> n_factor \<longrightarrow>
      (\<exists>r out. train g Y R reg alpha n_factor n_iter = (Inr r, out)))"
proof -
  have u: "fst (update s x t Y R reg alpha) = Inl ValueError \<longleftrightarrow> \<not> shapes_fit (s x) (s t) Y R"
    using update_succeeds[of s x t Y R reg alpha] update_raises[of s x t Y R reg alpha] by auto
  have u2: "fst (update s x t Y R reg alpha) = Inl ValueError \<longrightarrow> snd (update s x t Y R reg alpha) = s"
    using u update_raises[of s x t Y R reg alpha] by auto
  have u3: "conforming (s x) (s t) Y R \<longrightarrow> (\<exists>s'. update s x t Y R reg alpha = (Inr (x, t), s'))"
    using update_succeeds[of s x t Y R reg alpha] conforming_shapes_fit by blast
  have c3: "conforming X Theta Y R \<longrightarrow> (\<exists>c. compute_cost X Theta Y R reg = Inr c)"
    using compute_cost_conforming[of X Theta Y R reg] by simp
  have t0: "n_factor < 0 \<longrightarrow> snd (train g Y R reg alpha n_factor n_iter) = []"
    by (simp add: train_def)
  have t2: "0 \<le> n_factor \<and> 0 < n_iter \<and>
    \<not> (fits (fst (shape R)) (fst (shape Y)) \<and> fits (snd (shape R)) (snd (shape Y))) \<longrightarrow>
      snd (train g Y R reg alpha n_factor n_iter) =
        (case compute_cost (fst (init_factors g Y (nat n_factor))) (snd (init_factors g Y (nat n_factor))) Y R reg of
           Inl e \<Rightarrow> [] | Inr c \<Rightarrow> [(0, c)])"
    using train_partial_output[of n_factor n_iter R Y g reg alpha] by (intro impI) (elim conjE)
  have t3: "shape R = shape Y \<and> 0 \<le> n_factor \<longrightarrow>
      (\<exists>r out. train g Y R reg alpha n_factor n_iter = (Inr r, out))"
  proof (intro impI)
    assume a: "shape R = shape Y \<and> 0 \<le> n_factor"
    then have "fst (train g Y R reg alpha n_factor n_iter) \<noteq> Inl ValueError"
      unfolding train_raises_iff by (simp add: fits_def)
    then obtain r where "fst (train g Y R reg alpha n_factor n_iter) = Inr r"
      by (cases "fst (train g Y R reg alpha n_factor n_iter)") (auto intro: error.exhaust)
    then have "train g Y R reg alpha n_factor n_iter = (Inr r, snd (train g Y R reg alpha n_factor n_iter))"
      by (metis prod.collapse)
    then show "\<exists>r out. train g Y R reg alpha n_factor n_iter = (Inr r, out)" by (intro exI)
  qed
  show ?thesis
    by (intro conjI compute_cost_raises_iff u u2 train_raises_iff t0 t2 c3 u3 t3)
qed


theorem shape_errors_witness:
  "compute_cost ex_X wide_Theta ex_Y ex_R 1 = Inl ValueError \<and>
   fst (update (ex_store(1 := wide_Theta)) 0 1 ex_Y ex_R 1 1) = Inl ValueError \<and>
   snd (update (ex_store(1 := wide_Theta)) 0 1 ex_Y ex_R 1 1) = ex_store(1 := wide_Theta) \<and>
   fst (update ex_store 0 1 scalar_Y ex_R 1 1) \<noteq> Inl ValueError \<and>
   fst (train (\<lambda>n. real n) row_Y square_R 1 1 2 5) = Inl ValueError \<and>
   snd (train (\<lambda>n. real n) row_Y square_R 1 1 2 5) = [(0, 401 / 2)] \<and>
   fst (train (\<lambda>n. real n) row_Y square_R 1 1 2 0) \<noteq> Inl ValueError \<and>
   fst (train (\<lambda>n. real n) big_Y big_R 1 1 (- 1) 5) = Inl ValueError \<and>
   snd (train (\<lambda>n. real n) big_Y big_R 1 1 (- 1) 5) = [] \<and>
   conforming ex_X ex_Theta ex_Y ex_R \<and>
   (\<exists>c. compute_cost ex_X ex_Theta ex_Y ex_R 1 = Inr c) \<and>
   (\<exists>s'. update ex_store 0 1 ex_Y ex_R 1 1 = (Inr (0, 1), s')) \<and>
   (\<exists>r out. train (\<lambda>n. real n) big_Y big_R 1 1 3 5 = (Inr r, out))"
proof -
  note A = shape_errors[where X=ex_X and Theta=wide_Theta and Y=ex_Y and R=ex_R and reg=1
      and s="ex_store(1 := wide_Theta)" and x=0 and t=1 and alpha=1]
  note B = shape_errors[where X=ex_X and Theta=ex_Theta and Y=ex_Y and R=ex_R and reg=1
      and s=ex_store and x=0 and t=1 and alpha=1]
  note C = shape_errors[where Y=scalar_Y and R=ex_R and reg=1 and s=ex_store and x=0 and t=1 and alpha=1]
  note D = shape_errors[where Y=big_Y and R=big_R and reg=1 and alpha=1 and g="\<lambda>n. real n" and n_iter=5]
  note E = shape_errors[where Y=row_Y and R=square_R and reg=1 and alpha=1 and g="\<lambda>n. real n" and n_factor=2]
  note c4 = conjunct2[THEN conjunct2, THEN conjunct2, THEN conjunct1]
  note c5 = conjunct2[THEN conjunct2, THEN conjunct2, THEN conjunct2, THEN conjunct1]
  note c6 = conjunct2[THEN conjunct2, THEN conjunct2, THEN conjunct2, THEN conjunct2, THEN conjunct1]
  note c7 = conjunct2[THEN conjunct2, THEN conjunct2, THEN conjunct2, THEN conjunct2, THEN conjunct2, THEN conjunct1]
  note c8 = conjunct2[THEN conjunct2, THEN conjunct2, THEN conjunct2, THEN conjunct2, THEN conjunct2, THEN conjunct2,
      THEN conjunct1]
  note c9 = conjunct2[THEN conjunct2, THEN conjunct2, THEN conjunct2, THEN conjunct2, THEN conjunct2, THEN conjunct2,
      THEN conjunct2]
  have c: "conforming ex_X ex_Theta ex_Y ex_R"
    by (simp add: conforming_def valid_def ex_defs)
  have c': "conforming (ex_store 0) (ex_store 1) ex_Y ex_R"
    using c by (simp add: ex_store_def)
  have f: "shapes_fit (ex_store 0) (ex_store 1) scalar_Y ex_R"
    by (simp add: shapes_fit_def fits_def ex_store_def ex_defs scalar_Y_def)
  have nf: "\<not> shapes_fit ((ex_store(1 := wide_Theta)) 0) ((ex_store(1 := wide_Theta)) 1) ex_Y ex_R"
    by (simp add: shapes_fit_def fits_def ex_store_def ex_defs wide_Theta_def)
  have nc: "\<not> (snd (shape ex_X) = snd (shape wide_Theta) \<and>
         compatible3 (fst (shape ex_X)) (fst (shape ex_Y)) (fst (shape ex_R)) \<and>
         compatible3 (fst (shape wide_Theta)) (snd (shape ex_Y)) (snd (shape ex_R)))"
    by (simp add: ex_defs wide_Theta_def)
  have v: "shape big_R = shape big_Y \<and> (0::int) \<le> 3"
    by (simp add: big_Y_def big_R_def)
  have neg: "(- 1 :: int) < 0" by simp
  have nfit: "\<not> (fits (fst (shape square_R)) (fst (shape row_Y)) \<and> fits (snd (shape square_R)) (snd (shape row_Y)))"
    by (simp add: fits_def row_Y_def square_R_def)
  have pos: "(0::int) \<le> 2 \<and> (0::int) < 5 \<and>
    \<not> (fits (fst (shape square_R)) (fst (shape row_Y)) \<and> fits (snd (shape square_R)) (snd (shape row_Y)))"
    using nfit by simp
  have r5: "(2::int) < 0 \<or> (0::int) < 5 \<and>
    \<not> (fits (fst (shape square_R)) (fst (shape row_Y)) \<and> fits (snd (shape square_R)) (snd (shape row_Y)))"
    using nfit by simp
  have r0: "\<not> ((2::int) < 0 \<or> (0::int) < 0 \<and>
    \<not> (fits (fst (shape square_R)) (fst (shape row_Y)) \<and> fits (snd (shape square_R)) (snd (shape row_Y))))"
    by simp
  have n2: "nat 2 = 2" by simp
  have 1: "compute_cost ex_X wide_Theta ex_Y ex_R 1 = Inl ValueError"
    using A[THEN conjunct1, THEN iffD2, OF nc] .
  have 2: "fst (update (ex_store(1 := wide_Theta)) 0 1 ex_Y ex_R 1 1) = Inl ValueError"
    using A[THEN conjunct2, THEN conjunct1, THEN iffD2, OF nf] .
  have 3: "snd (update (ex_store(1 := wide_Theta)) 0 1 ex_Y ex_R 1 1) = ex_store(1 := wide_Theta)"
    using A[THEN conjunct2, THEN conjunct2, THEN conjunct1, THEN mp, OF 2] .
  have 4: "fst (update ex_store 0 1 scalar_Y ex_R 1 1) \<noteq> Inl ValueError"
    using C[THEN conjunct2, THEN conjunct1] f by simp
  have 5: "fst (train (\<lambda>n. real n) row_Y square_R 1 1 2 5) = Inl ValueError"
    using E[where n_iter=5, THEN c4, THEN iffD2, OF r5] .
  have 6: "snd (train (\<lambda>n. real n) row_Y square_R 1 1 2 5) = [(0, 401 / 2)]"
    using E[where n_iter=5, THEN c6, THEN mp, OF pos] unfolding n2 train_row_cost by simp
  have 7: "fst (train (\<lambda>n. real n) row_Y square_R 1 1 2 0) \<noteq> Inl ValueError"
    using E[where n_iter=0, THEN c4] r0 by simp
  have 8: "fst (train (\<lambda>n. real n) big_Y big_R 1 1 (- 1) 5) = Inl ValueError"
    using D[where n_factor="- 1", THEN c4] by simp
  have 9: "snd (train (\<lambda>n. real n) big_Y big_R 1 1 (- 1) 5) = []"
    using D[where n_factor="- 1", THEN c5, THEN mp, OF neg] .
  have 10: "\<exists>c. compute_cost ex_X ex_Theta ex_Y ex_R 1 = Inr c"
    using B[THEN c7, THEN mp, OF c] .
  have 11: "\<exists>s'. update ex_store 0 1 ex_Y ex_R 1 1 = (Inr (0, 1), s')"
    using B[THEN c8, THEN mp, OF c'] .
  have 12: "\<exists>r out. train (\<lambda>n. real n) big_Y big_R 1 1 3 5 = (Inr r, out)"
    using D[where n_factor=3, THEN c9, THEN mp, OF v] .
  show ?thesis using 1 2 3 4 5 6 7 8 9 c 10 11 12 by (intro conjI)
qed


section \<open>Facts about the embedding over an arithmetic\<close>

text \<open>Over the real numbers the second embedding is the first.\<close>

lemma real_arith_sel:
  "a_zero real_arith = 0" "a_add real_arith = (\<lambda>x y. x + y)" "a_sub real_arith = (\<lambda>x y. x - y)"
  "a_mul real_arith = (\<lambda>x y. x * y)" "a_half real_arith = (\<lambda>x. x / 2)" "a_square real_arith = (\<lambda>x. x\<^sup>2)"
  "a_mask real_arith = (\<lambda>b. if b then 1 else 0)"
  "a_dot real_arith = (\<lambda>xs ys. sum_list (map2 (\<lambda>x y. x * y) xs ys))"
  "a_total real_arith = (\<lambda>rs. sum_list (map sum_list rs))"
  "a_norm real_arith = (\<lambda>rs. sqrt (sum_list (map (\<lambda>r. sum_list (map (\<lambda>x. x * x) r)) rs)))"
  "a_finite real_arith = (\<lambda>x. True)" "a_nan real_arith = (\<lambda>x. False)" "a_nonneg real_arith = (\<lambda>x. 0 \<le> x)"
  by (simp_all add: real_arith_def)

lemma bindE_assoc: "bindE (bindE m f) g = bindE m (\<lambda>x. bindE (f x) g)"
  by (cases m) (simp_all add: bindE_def)

lemma dot_real: "sum_list (map2 (\<lambda>x y. x * y) (map f xs) (map g xs)) = sum_list (map (\<lambda>l. f l * g l) xs)"
  by (induction xs) simp_all

lemma matmul_in_real: "matmul_in real_arith = matmul"
  by (intro ext) (simp add: matmul_in_def matmul_def real_arith_sel dot_real)

lemma masked_error_in_real: "masked_error_in real_arith = masked_error"
  by (intro ext) (simp add: masked_error_in_def residual_in_def masked_error_def matmul_in_real
      subtract_in_def subtract_def multiply_mask_in_def multiply_mask_def real_arith_sel bindE_assoc)

lemma compute_cost_in_real: "compute_cost_in real_arith = compute_cost"
  by (intro ext) (simp add: compute_cost_in_def compute_cost_def masked_error_in_real matmul_in_real
      penalty_in_def np_sum_in_def linalg_norm_in_def np_sum_def linalg_norm_def real_arith_sel)

lemma update_dX_in_real: "update_dX_in real_arith = update_dX"
  by (intro ext) (simp add: update_dX_in_def update_dX_def masked_error_in_real matmul_in_real
      add_in_def add_def smul_in_def smul_def real_arith_sel)

lemma update_dTheta_in_real: "update_dTheta_in real_arith = update_dTheta"
  by (intro ext) (simp add: update_dTheta_in_def update_dTheta_def masked_error_in_real matmul_in_real
      add_in_def add_def smul_in_def smul_def real_arith_sel)

lemma isubtract_in_real: "isubtract_in real_arith = isubtract"
  by (intro ext) (simp add: isubtract_in_def isubtract_def real_arith_sel)

lemma smul_in_real: "smul_in real_arith = smul"
  by (intro ext) (simp add: smul_in_def smul_def real_arith_sel)

lemma update_in_real: "update_in real_arith = update"
  by (intro ext)
     (simp only: update_in_def update_def update_dX_in_real update_dTheta_in_real
      isubtract_in_real smul_in_real)

text \<open>The two lists of arithmetic facts, taken apart.\<close>

lemma ieee_zeroD:
  assumes "ieee_zero ar"
  shows "a_finite ar (a_zero ar)"
    and "a_finite ar x \<Longrightarrow> a_mul ar x (a_mask ar False) = a_zero ar"
    and "a_mul ar x (a_mask ar True) = x"
    and "a_finite ar x \<Longrightarrow> a_sub ar x x = a_zero ar"
    and "a_finite ar x \<Longrightarrow> a_mul ar (a_zero ar) x = a_zero ar"
    and "a_add ar (a_zero ar) x = x"
    and "a_half ar (a_zero ar) = a_zero ar"
    and "list_all (\<lambda>x. x = a_zero ar) xs \<Longrightarrow> list_all (\<lambda>y. y = a_zero ar) ys \<Longrightarrow> a_dot ar xs ys = a_zero ar"
    and "list_all (list_all (\<lambda>x. x = a_zero ar)) rs \<Longrightarrow> a_total ar rs = a_zero ar"
proof -
  note a = assms[unfolded ieee_zero_def]
  show "a_finite ar (a_zero ar)" using a by (elim conjE)
  show "a_finite ar x \<Longrightarrow> a_mul ar x (a_mask ar False) = a_zero ar"
    using a[THEN conjunct2, THEN conjunct1] by simp
  show "a_mul ar x (a_mask ar True) = x"
    using a[THEN conjunct2, THEN conjunct2, THEN conjunct1] by simp
  show "a_finite ar x \<Longrightarrow> a_sub ar x x = a_zero ar"
    using a[THEN conjunct2, THEN conjunct2, THEN conjunct2, THEN conjunct1] by simp
  show "a_finite ar x \<Longrightarrow> a_mul ar (a_zero ar) x = a_zero ar"
    using a[THEN conjunct2, THEN conjunct2, THEN conjunct2, THEN conjunct2, THEN conjunct1] by simp
  show "a_add ar (a_zero ar) x = x"
    using a[THEN conjunct2, THEN conjunct2, THEN conjunct2, THEN conjunct2, THEN conjunct2, THEN conjunct1] by simp
  show "a_half ar (a_zero ar) = a_zero ar"
    using a[THEN conjunct2, THEN conjunct2, THEN conjunct2, THEN conjunct2, THEN conjunct2, THEN conjunct2,
        THEN conjunct1] .
  show "list_all (\<lambda>x. x = a_zero ar) xs \<Longrightarrow> list_all (\<lambda>y. y = a_zero ar) ys \<Longrightarrow> a_dot ar xs ys = a_zero ar"
    using a[THEN conjunct2, THEN conjunct2, THEN conjunct2, THEN conjunct2, THEN conjunct2, THEN conjunct2,
        THEN conjunct2, THEN conjunct1] by simp
  show "list_all (list_all (\<lambda>x. x = a_zero ar)) rs \<Longrightarrow> a_total ar rs = a_zero ar"
    using a[THEN conjunct2, THEN conjunct2, THEN conjunct2, THEN conjunct2, THEN conjunct2, THEN conjunct2,
        THEN conjunct2, THEN conjunct2] by simp
qed

lemma ieee_signD:
  assumes "ieee_sign ar"
  shows "a_total ar [[x]] = x"
    and "a_nonneg ar (a_norm ar rs) \<or> a_nan ar (a_norm ar rs)"
    and "a_nonneg ar x \<Longrightarrow> a_nonneg ar (a_square ar x)"
    and "a_nan ar x \<Longrightarrow> a_nan ar (a_square ar x)"
    and "a_nonneg ar x \<Longrightarrow> a_nonneg ar y \<Longrightarrow> a_nonneg ar (a_add ar x y)"
    and "a_nan ar x \<or> a_nan ar y \<Longrightarrow> a_nan ar (a_add ar x y)"
    and "a_nonneg ar x \<Longrightarrow> a_nonneg ar (a_half ar x)"
    and "a_nan ar x \<Longrightarrow> a_nan ar (a_half ar x)"
    and "a_nonneg ar x \<Longrightarrow> a_nonneg ar y \<Longrightarrow> a_nonneg ar (a_mul ar x y) \<or> a_nan ar (a_mul ar x y)"
    and "a_nan ar y \<Longrightarrow> a_nan ar (a_mul ar x y)"
    and "a_nonneg ar (a_dot ar xs xs) \<or> a_nan ar (a_dot ar xs xs)"
proof -
  note a = assms[unfolded ieee_sign_def]
  note a1 = a[THEN conjunct1] and a2 = a[THEN conjunct2, THEN conjunct1]
    and a3 = a[THEN conjunct2, THEN conjunct2, THEN conjunct1]
    and a4 = a[THEN conjunct2, THEN conjunct2, THEN conjunct2, THEN conjunct1]
    and a5 = a[THEN conjunct2, THEN conjunct2, THEN conjunct2, THEN conjunct2, THEN conjunct1]
    and a6 = a[THEN conjunct2, THEN conjunct2, THEN conjunct2, THEN conjunct2, THEN conjunct2, THEN conjunct1]
    and a7 = a[THEN conjunct2, THEN conjunct2, THEN conjunct2, THEN conjunct2, THEN conjunct2, THEN conjunct2]
  show "a_total ar [[x]] = x" using a1 by simp
  show "a_nonneg ar (a_norm ar rs) \<or> a_nan ar (a_norm ar rs)" using a2 by simp
  show "a_nonneg ar x \<Longrightarrow> a_nonneg ar (a_square ar x)" using a3 by simp
  show "a_nan ar x \<Longrightarrow> a_nan ar (a_square ar x)" using a3 by simp
  show "a_nonneg ar x \<Longrightarrow> a_nonneg ar y \<Longrightarrow> a_nonneg ar (a_add ar x y)" using a4 by simp
  show "a_nan ar x \<or> a_nan ar y \<Longrightarrow> a_nan ar (a_add ar x y)" using a4 by blast
  show "a_nonneg ar x \<Longrightarrow> a_nonneg ar (a_half ar x)" using a5 by simp
  show "a_nan ar x \<Longrightarrow> a_nan ar (a_half ar x)" using a5 by simp
  show "a_nonneg ar x \<Longrightarrow> a_nonneg ar y \<Longrightarrow> a_nonneg ar (a_mul ar x y) \<or> a_nan ar (a_mul ar x y)"
    using a6 by simp
  show "a_nan ar y \<Longrightarrow> a_nan ar (a_mul ar x y)" using a6 by simp
  show "a_nonneg ar (a_dot ar xs xs) \<or> a_nan ar (a_dot ar xs xs)" using a7 by simp
qed

text \<open>Both lists hold of the real numbers and of the arithmetic with special values.\<close>

lemma ieee_zero_real: "ieee_zero real_arith"
proof -
  have d: "sum_list (map2 (\<lambda>x y. x * y) xs ys) = 0" if "list_all (\<lambda>x. x = 0) xs" for xs ys :: "real list"
    using that by (induction xs arbitrary: ys) (auto simp: zip_Cons1 split: list.splits)
  have t: "sum_list (map sum_list rs) = 0" if "list_all (list_all (\<lambda>x. x = 0)) rs" for rs :: "real list list"
    using that
  proof (induction rs)
    case (Cons r rs)
    have "sum_list r = 0" using Cons.prems by (induction r) simp_all
    then show ?case using Cons by simp
  qed simp
  show ?thesis
    unfolding ieee_zero_def real_arith_sel using d t by simp
qed

lemma ieee_sign_real: "ieee_sign real_arith"
proof -
  have n: "0 \<le> sum_list (map (\<lambda>r. sum_list (map (\<lambda>x. x * x) r)) rs)" for rs :: "real list list"
    by (intro sum_list_nonneg) (auto intro!: sum_list_nonneg)
  have d: "0 \<le> sum_list (map2 (\<lambda>x y. x * y) xs xs)" for xs :: "real list"
    by (induction xs) simp_all
  show ?thesis
    unfolding ieee_sign_def real_arith_sel using n d by simp
qed

lemma xr_arith_sel:
  "a_zero xr_arith = Fin 0" "a_add xr_arith = xr_add" "a_sub xr_arith = xr_sub" "a_mul xr_arith = xr_mul"
  "a_half xr_arith = xr_half" "a_square xr_arith = (\<lambda>x. xr_mul x x)"
  "a_mask xr_arith = (\<lambda>b. Fin (if b then 1 else 0))"
  "a_dot xr_arith = (\<lambda>xs ys. foldl xr_add (Fin 0) (map2 xr_mul xs ys))"
  "a_total xr_arith = (\<lambda>rs. foldl xr_add (Fin 0) (concat rs))"
  "a_norm xr_arith = (\<lambda>rs. xr_sqrt (foldl xr_add (Fin 0) (map (\<lambda>x. xr_mul x x) (concat rs))))"
  "a_finite xr_arith = xr_finite" "a_nan xr_arith = (\<lambda>x. x = NaN)" "a_nonneg xr_arith = xr_nonneg"
  by (simp_all add: xr_arith_def)

lemma xr_add_zero: "xr_add (Fin 0) x = x"
  by (cases x) simp_all

lemma foldl_zeros: "list_all (\<lambda>x. x = Fin 0) xs \<Longrightarrow> foldl xr_add (Fin 0) xs = Fin 0"
  by (induction xs) simp_all

lemma map2_zeros:
  "list_all (\<lambda>x. x = Fin 0) xs \<Longrightarrow> list_all (\<lambda>y. y = Fin 0) ys \<Longrightarrow>
   list_all (\<lambda>x. x = Fin 0) (map2 xr_mul xs ys)"
proof (induction xs arbitrary: ys)
  case Nil
  then show ?case by simp
next
  case (Cons x xs)
  then show ?case by (cases ys) simp_all
qed

lemma ieee_zero_xr: "ieee_zero xr_arith"
  unfolding ieee_zero_def xr_arith_sel
proof (intro conjI allI impI)
  show "xr_finite (Fin 0)" by simp
  show "xr_mul x (Fin (if False then 1 else 0)) = Fin 0" if "xr_finite x" for x
    using that by (cases x) simp_all
  show "xr_mul x (Fin (if True then 1 else 0)) = x" for x
    by (cases x) simp_all
  show "xr_sub x x = Fin 0" if "xr_finite x" for x
    using that by (cases x) (simp_all add: xr_sub_def)
  show "xr_mul (Fin 0) x = Fin 0" if "xr_finite x" for x
    using that by (cases x) simp_all
  show "xr_add (Fin 0) x = x" for x by (rule xr_add_zero)
  show "xr_half (Fin 0) = Fin 0" by simp
  show "foldl xr_add (Fin 0) (map2 xr_mul xs ys) = Fin 0"
    if "list_all (\<lambda>x. x = Fin 0) xs \<and> list_all (\<lambda>y. y = Fin 0) ys" for xs ys
    using that by (intro foldl_zeros map2_zeros) simp_all
  show "foldl xr_add (Fin 0) (concat rs) = Fin 0"
    if "list_all (list_all (\<lambda>x. x = Fin 0)) rs" for rs
    using that by (intro foldl_zeros) (auto simp: list_all_iff)
qed

lemma nn_or_nan_add: "nn_or_nan x \<Longrightarrow> nn_or_nan y \<Longrightarrow> nn_or_nan (xr_add x y)"
  by (cases x; cases y) (simp_all add: nn_or_nan_def)

lemma nn_or_nan_square: "nn_or_nan (xr_mul x x)"
  by (cases x) (simp_all add: nn_or_nan_def)

lemma nn_or_nan_foldl:
  "nn_or_nan acc \<Longrightarrow> list_all nn_or_nan xs \<Longrightarrow> nn_or_nan (foldl xr_add acc xs)"
  by (induction xs arbitrary: acc) (simp_all add: nn_or_nan_add)

lemma nn_or_nan_sqrt: "nn_or_nan x \<Longrightarrow> nn_or_nan (xr_sqrt x)"
  by (cases x) (simp_all add: nn_or_nan_def)

lemma map2_same: "map2 f xs xs = map (\<lambda>x. f x x) xs"
  by (induction xs) simp_all

lemma ieee_sign_xr: "ieee_sign xr_arith"
  unfolding ieee_sign_def xr_arith_sel
proof (intro conjI allI impI)
  show "foldl xr_add (Fin 0) (concat [[x]]) = x" for x by (simp add: xr_add_zero)
  have z: "nn_or_nan (Fin 0)" by (simp add: nn_or_nan_def)
  show "xr_nonneg (xr_sqrt (foldl xr_add (Fin 0) (map (\<lambda>x. xr_mul x x) (concat rs)))) \<or>
        xr_sqrt (foldl xr_add (Fin 0) (map (\<lambda>x. xr_mul x x) (concat rs))) = NaN" for rs
    using nn_or_nan_sqrt[OF nn_or_nan_foldl[OF z, of "map (\<lambda>x. xr_mul x x) (concat rs)"]]
    by (simp add: nn_or_nan_def list_all_iff nn_or_nan_square[unfolded nn_or_nan_def])
  show "xr_nonneg (xr_mul x x)" if "xr_nonneg x" for x using that by (cases x) simp_all
  show "xr_mul x x = NaN" if "x = NaN" for x using that by simp
  show "xr_nonneg (xr_add x y)" if "xr_nonneg x \<and> xr_nonneg y" for x y
    using that by (cases x; cases y) simp_all
  show "xr_add x y = NaN" if "x = NaN \<or> y = NaN" for x y
    using that by (cases x; cases y) simp_all
  show "xr_nonneg (xr_half x)" if "xr_nonneg x" for x using that by (cases x) simp_all
  show "xr_half x = NaN" if "x = NaN" for x using that by simp
  show "xr_nonneg (xr_mul x y) \<or> xr_mul x y = NaN" if "xr_nonneg x \<and> xr_nonneg y" for x y
    using that by (cases x; cases y) (simp_all add: zero_less_mult_iff)
  show "xr_mul x y = NaN" if "y = NaN" for x y using that by (cases x) simp_all
  show "xr_nonneg (foldl xr_add (Fin 0) (map2 xr_mul xs xs)) \<or>
        foldl xr_add (Fin 0) (map2 xr_mul xs xs) = NaN" for xs
    using nn_or_nan_foldl[OF z, of "map (\<lambda>x. xr_mul x x) xs"]
    by (simp add: map2_same nn_or_nan_def list_all_iff nn_or_nan_square[unfolded nn_or_nan_def])
qed

lemmas eval_in_defs = compute_cost_in_def masked_error_in_def residual_in_def matmul_in_def np_T_def
  subtract_in_def multiply_mask_in_def ufunc_def add_in_def smul_in_def isubtract_in_def update_dX_in_def
  update_dTheta_in_def penalty_in_def np_sum_in_def linalg_norm_in_def broadcast_shapes_def
  broadcast_dim_def bentry_def entry_def tabulate_def bindE_def upt_conv_Cons xr_arith_sel xr_sub_def

text \<open>The masked residual on conforming shapes, and what the mask lets through.\<close>

lemma matmul_in_conforming:
  assumes "conforming_shapes X Theta Y R"
  shows "matmul_in ar X (np_T Theta) =
      Inr (tabulate (fst (shape X)) (fst (shape Theta)) (product_in ar X Theta))"
proof -
  let ?k = "snd (shape X)"
  have k: "snd (shape Theta) = ?k"
    using assms by (simp add: conforming_shapes_def)
  have l: "map (\<lambda>l. entry (tabulate ?k (fst (shape Theta)) (\<lambda>i j. entry Theta j i)) l j) [0..<?k]
      = map (entry Theta j) [0..<?k]"
    if "j < fst (shape Theta)" for j
    using that by (intro map_cong) simp_all
  show ?thesis
    unfolding matmul_in_def product_in_def np_T_def
    using k by (auto simp: l intro!: tabulate_cong)
qed

lemma residual_in_conforming:
  assumes "conforming_shapes X Theta Y R"
  shows "residual_in ar X Theta Y =
     Inr (tabulate (fst (shape X)) (fst (shape Theta))
            (\<lambda>i j. a_sub ar (product_in ar X Theta i j) (entry Y i j)))"
proof -
  let ?k = "snd (shape X)"
  have k: "snd (shape Theta) = ?k" and shY: "shape Y = (fst (shape X), fst (shape Theta))"
    using assms by (simp_all add: conforming_shapes_def)
  have l: "map (\<lambda>l. entry (tabulate ?k (fst (shape Theta)) (\<lambda>i j. entry Theta j i)) l j) [0..<?k]
      = map (entry Theta j) [0..<?k]"
    if "j < fst (shape Theta)" for j
    using that by (intro map_cong) simp_all
  have P: "matmul_in ar X (np_T Theta) =
      Inr (tabulate (fst (shape X)) (fst (shape Theta)) (product_in ar X Theta))"
    unfolding matmul_in_def product_in_def np_T_def
    using k by (auto simp: l intro!: tabulate_cong)
  show ?thesis
    unfolding residual_in_def P bindE_def subtract_in_def
    using shY by (auto simp: ufunc_same_shape intro!: tabulate_cong)
qed

lemma masked_error_in_conforming:
  assumes "conforming_shapes X Theta Y R"
  shows "masked_error_in ar X Theta Y R =
     Inr (tabulate (fst (shape X)) (fst (shape Theta))
            (\<lambda>i j. a_mul ar (a_sub ar (product_in ar X Theta i j) (entry Y i j)) (a_mask ar (entry R i j))))"
  using assms
  by (auto simp: masked_error_in_def residual_in_conforming[OF assms] bindE_def multiply_mask_in_def
      ufunc_same_shape conforming_shapes_def intro!: tabulate_cong)

lemma masked_error_in_mask_only:
  assumes z: "ieee_zero ar"
    and sY: "shape Y = shape R" and sY': "shape Y' = shape R"
    and agree: "\<And>i j. i < fst (shape R) \<Longrightarrow> j < snd (shape R) \<Longrightarrow> entry R i j \<Longrightarrow> entry Y i j = entry Y' i j"
    and fin: "\<And>D i j. residual_in ar X Theta Y = Inr D \<Longrightarrow> i < fst (shape D) \<Longrightarrow> j < snd (shape D) \<Longrightarrow>
                \<not> bentry R i j \<Longrightarrow> a_finite ar (entry D i j)"
    and fin': "\<And>D i j. residual_in ar X Theta Y' = Inr D \<Longrightarrow> i < fst (shape D) \<Longrightarrow> j < snd (shape D) \<Longrightarrow>
                \<not> bentry R i j \<Longrightarrow> a_finite ar (entry D i j)"
  shows "masked_error_in ar X Theta Y R = masked_error_in ar X Theta Y' R"
proof (cases "matmul_in ar X (np_T Theta)")
  case (Inl e)
  then show ?thesis by (simp add: masked_error_in_def residual_in_def bindE_def)
next
  case (Inr P)
  show ?thesis
  proof (cases "broadcast_shapes (shape P) (shape R)")
    case None
    then show ?thesis using Inr sY sY'
      by (simp add: masked_error_in_def residual_in_def bindE_def subtract_in_def ufunc_def)
  next
    case (Some nm)
    obtain n m where nm: "nm = (n, m)" by (cases nm)
    have bn: "broadcast_dim (fst (shape P)) (fst (shape R)) = Some n"
      and bm: "broadcast_dim (snd (shape P)) (snd (shape R)) = Some m"
      using Some nm by (simp_all add: broadcast_shapes_Some)
    have again: "broadcast_shapes (n, m) (shape R) = Some (n, m)"
      using broadcast_dim_idem[OF bn] broadcast_dim_idem[OF bm] by (simp add: broadcast_shapes_Some)
    let ?D = "tabulate n m (\<lambda>i j. a_sub ar (bentry P i j) (bentry Y i j))"
    let ?D' = "tabulate n m (\<lambda>i j. a_sub ar (bentry P i j) (bentry Y' i j))"
    have rD: "residual_in ar X Theta Y = Inr ?D"
      using Inr Some nm sY by (simp add: residual_in_def bindE_def subtract_in_def ufunc_def)
    have rD': "residual_in ar X Theta Y' = Inr ?D'"
      using Inr Some nm sY' by (simp add: residual_in_def bindE_def subtract_in_def ufunc_def)
    have eq: "a_mul ar (entry ?D i j) (a_mask ar (bentry R i j))
            = a_mul ar (entry ?D' i j) (a_mask ar (bentry R i j))"
      if ij: "i < n" "j < m" for i j
    proof (cases "bentry R i j")
      case True
      then have "bentry Y i j = bentry Y' i j"
        using agree[OF broadcast_dim_index[OF bn ij(1)] broadcast_dim_index[OF bm ij(2)]]
        by (simp add: bentry_def sY sY')
      then show ?thesis using ij by simp
    next
      case False
      have "a_finite ar (entry ?D i j)" "a_finite ar (entry ?D' i j)"
        using fin[OF rD _ _ False] fin'[OF rD' _ _ False] ij by simp_all
      then show ?thesis
        using False by (simp add: ieee_zeroD(2)[OF z])
    qed
    have "masked_error_in ar X Theta Y R =
        Inr (tabulate n m (\<lambda>i j. a_mul ar (entry ?D i j) (a_mask ar (bentry R i j))))"
      using again
      by (auto simp: masked_error_in_def rD bindE_def multiply_mask_in_def ufunc_def bentry_in_range
          intro!: tabulate_cong)
    moreover have "masked_error_in ar X Theta Y' R =
        Inr (tabulate n m (\<lambda>i j. a_mul ar (entry ?D' i j) (a_mask ar (bentry R i j))))"
      using again
      by (auto simp: masked_error_in_def rD' bindE_def multiply_mask_in_def ufunc_def bentry_in_range
          intro!: tabulate_cong)
    ultimately show ?thesis
      using eq by (auto intro!: tabulate_cong)
  qed
qed

lemma compute_cost_in_zero_error:
  assumes z: "ieee_zero ar"
    and E: "masked_error_in ar X Theta Y R = Inr (tabulate n m (\<lambda>i j. a_zero ar))"
  shows "compute_cost_in ar X Theta Y R reg = Inr (penalty_in ar X Theta reg)"
proof -
  let ?E = "tabulate n m (\<lambda>i j. a_zero ar) :: 'a ndarray"
  have dz: "a_dot ar (map (\<lambda>l. entry ?E i l) [0..<m]) (map (\<lambda>l. entry (np_T ?E) l j) [0..<m]) = a_zero ar"
    if "i < n" "j < n" for i j
    using that by (intro ieee_zeroD(8)[OF z]) (simp_all add: list_all_iff np_T_def)
  have G: "matmul_in ar ?E (np_T ?E) = Inr (tabulate n n (\<lambda>i j. a_zero ar))"
    using dz by (auto simp: matmul_in_def np_T_def intro!: tabulate_cong)
  have t: "np_sum_in ar (tabulate n n (\<lambda>i j. a_zero ar)) = a_zero ar"
    unfolding np_sum_in_def by (intro ieee_zeroD(9)[OF z]) (simp add: tabulate_def list_all_iff)
  show ?thesis
    by (simp add: compute_cost_in_def E bindE_def G t ieee_zeroD(7)[OF z] ieee_zeroD(6)[OF z])
qed


lemma less_two: "(\<forall>i<(2::nat). P i) \<longleftrightarrow> P 0 \<and> P (Suc 0)"
  by (auto simp: less_Suc_eq numeral_2_eq_2)

text \<open>Signs of the parts of the cost.\<close>

lemma sign_half:
  assumes "ieee_sign ar" "a_nonneg ar x \<or> a_nan ar x"
  shows "a_nonneg ar (a_half ar x) \<or> a_nan ar (a_half ar x)"
  using assms(2) ieee_signD(7)[OF assms(1), of x] ieee_signD(8)[OF assms(1), of x] by blast

lemma sign_add:
  assumes "ieee_sign ar" "a_nonneg ar x \<or> a_nan ar x" "a_nonneg ar y \<or> a_nan ar y"
  shows "a_nonneg ar (a_add ar x y) \<or> a_nan ar (a_add ar x y)"
  using assms(2,3) ieee_signD(5)[OF assms(1), of x y] ieee_signD(6)[OF assms(1), of x y] by blast

lemma sign_square:
  assumes "ieee_sign ar" "a_nonneg ar x \<or> a_nan ar x"
  shows "a_nonneg ar (a_square ar x) \<or> a_nan ar (a_square ar x)"
  using assms(2) ieee_signD(3)[OF assms(1), of x] ieee_signD(4)[OF assms(1), of x] by blast

lemma sign_penalty:
  assumes s: "ieee_sign ar" and r: "a_nonneg ar reg"
  shows "a_nonneg ar (penalty_in ar X Theta reg) \<or> a_nan ar (penalty_in ar X Theta reg)"
proof -
  let ?q = "a_add ar (a_square ar (linalg_norm_in ar X)) (a_square ar (linalg_norm_in ar Theta))"
  have q: "a_nonneg ar ?q \<or> a_nan ar ?q"
    unfolding linalg_norm_in_def
    by (intro sign_add[OF s] sign_square[OF s] ieee_signD(2)[OF s])
  have h: "a_nonneg ar (a_half ar reg)" using r by (rule ieee_signD(7)[OF s])
  show ?thesis
    unfolding penalty_in_def
    using q ieee_signD(9)[OF s h, of ?q] ieee_signD(10)[OF s, of ?q "a_half ar reg"] by blast
qed


section \<open>The sign of the cost\<close>

text \<open>
  C6, as stated: on conforming shapes and \<open>reg \<ge> 0\<close> the value \<open>compute_cost\<close> returns is
  non-negative. With \<open>X = [[inf]]\<close>, \<open>Theta = [[0.]]\<close>, \<open>Y = [[0.]]\<close>, the entry observed
  and \<open>reg = 0\<close>, the product \<open>inf * 0.0\<close> is NaN and so is the value returned; NaN is not
  non-negative.
\<close>

theorem nan_cost_counterexample:
  "conforming_shapes inf_X fzero_X fzero_X one_R \<and> a_nonneg xr_arith (Fin 0) \<and>
   compute_cost_in xr_arith inf_X fzero_X fzero_X one_R (Fin 0) = Inr NaN \<and>
   \<not> a_nonneg xr_arith NaN"
  by (simp add: inf_X_def fzero_X_def one_R_def eval_in_defs conforming_shapes_def)

text \<open>
  C6, amended. On conforming shapes and \<open>reg \<ge> 0\<close> the penalty
  \<open>reg / 2 * (norm(X) ** 2 + norm(Theta) ** 2)\<close> is non-negative or NaN, and when \<open>X\<close> has
  one row the value \<open>compute_cost\<close> returns is non-negative or NaN. With one row
  \<open>error @ error.T\<close> is the 1x1 array of the inner product of the masked residual with
  itself. With more rows \<open>np.sum\<close> also adds the products of different rows, and nothing
  is said of the sign of their rounded sum.
\<close>

theorem cost_nonneg_or_nan:
  assumes "ieee_sign ar" and "conforming_shapes X Theta Y R" and "a_nonneg ar reg"
  shows "(a_nonneg ar (penalty_in ar X Theta reg) \<or> a_nan ar (penalty_in ar X Theta reg)) \<and>
         (fst (shape X) = 1 \<longrightarrow>
            (\<exists>c. compute_cost_in ar X Theta Y R reg = Inr c \<and> (a_nonneg ar c \<or> a_nan ar c)))"
proof (intro conjI impI)
  note s = assms(1) and c = assms(2)
  show p: "a_nonneg ar (penalty_in ar X Theta reg) \<or> a_nan ar (penalty_in ar X Theta reg)"
    by (rule sign_penalty[OF s assms(3)])
  assume one: "fst (shape X) = 1"
  let ?nu = "fst (shape Theta)"
  let ?f = "\<lambda>i j. a_mul ar (a_sub ar (product_in ar X Theta i j) (entry Y i j)) (a_mask ar (entry R i j))"
  let ?E = "tabulate 1 ?nu ?f"
  let ?xs = "map (?f 0) [0..<?nu]"
  have E: "masked_error_in ar X Theta Y R = Inr ?E"
    using masked_error_in_conforming[OF c, of ar] one by simp
  have l1: "map (\<lambda>l. entry ?E 0 l) [0..<?nu] = ?xs"
    by (intro map_cong) simp_all
  have l2: "map (\<lambda>l. entry (np_T ?E) l 0) [0..<?nu] = ?xs"
    by (intro map_cong) (simp_all add: np_T_def)
  have sh: "snd (shape ?E) = ?nu" "fst (shape (np_T ?E)) = ?nu" "fst (shape ?E) = 1"
    "snd (shape (np_T ?E)) = 1"
    by (simp_all add: np_T_def)
  have t11: "tabulate 1 1 g = \<lparr>shape = (1, 1), rows = [[g 0 0]]\<rparr>" for g :: "nat \<Rightarrow> nat \<Rightarrow> 'a"
    by (simp add: tabulate_def)
  have G: "matmul_in ar ?E (np_T ?E) = Inr \<lparr>shape = (1, 1), rows = [[a_dot ar ?xs ?xs]]\<rparr>"
    unfolding matmul_in_def sh t11 l1 l2 by simp
  let ?d = "a_dot ar ?xs ?xs"
  have cc: "compute_cost_in ar X Theta Y R reg = Inr (a_add ar (a_half ar ?d) (penalty_in ar X Theta reg))"
    unfolding compute_cost_in_def E bindE_def sum.case G
    by (simp add: np_sum_in_def ieee_signD(1)[OF s])
  have "a_nonneg ar (a_add ar (a_half ar ?d) (penalty_in ar X Theta reg)) \<or>
        a_nan ar (a_add ar (a_half ar ?d) (penalty_in ar X Theta reg))"
    by (intro sign_add[OF s] sign_half[OF s] ieee_signD(11)[OF s] p)
  then show "\<exists>c. compute_cost_in ar X Theta Y R reg = Inr c \<and> (a_nonneg ar c \<or> a_nan ar c)"
    using cc by simp
qed

theorem cost_nonneg_or_nan_witness:
  "compute_cost_in xr_arith fl_X fl_Theta (fl_Y (Fin 0)) fl_R (Fin 1) = Inr (Fin 15) \<and>
   (\<exists>c. compute_cost_in xr_arith fl_X fl_Theta (fl_Y (Fin 0)) fl_R (Fin 1) = Inr c \<and>
        (a_nonneg xr_arith c \<or> a_nan xr_arith c)) \<and>
   (\<exists>c. compute_cost_in xr_arith fl_X inf_Theta (fl_Y (Fin 0)) fl_R (Fin 1) = Inr c \<and>
        (a_nonneg xr_arith c \<or> a_nan xr_arith c))"
proof -
  have c: "conforming_shapes fl_X fl_Theta (fl_Y (Fin 0)) fl_R"
    "conforming_shapes fl_X inf_Theta (fl_Y (Fin 0)) fl_R"
    by (simp_all add: conforming_shapes_def fl_defs inf_Theta_def)
  have r: "a_nonneg xr_arith (Fin 1)" by (simp add: xr_arith_sel)
  have one: "fst (shape fl_X) = 1" by (simp add: fl_defs)
  have v: "compute_cost_in xr_arith fl_X fl_Theta (fl_Y (Fin 0)) fl_R (Fin 1) = Inr (Fin 15)"
    by (simp add: fl_defs eval_in_defs)
  note A = cost_nonneg_or_nan[OF ieee_sign_xr c(1) r, THEN conjunct2, THEN mp, OF one]
  note B = cost_nonneg_or_nan[OF ieee_sign_xr c(2) r, THEN conjunct2, THEN mp, OF one]
  show ?thesis by (intro conjI v A B)
qed


section \<open>When the cost is zero\<close>

text \<open>
  C2, as stated: the cost is zero if and only if \<open>reg = 0\<close> and every observed entry is
  exactly reconstructed. Neither direction holds. With \<open>X\<close> and \<open>Theta\<close> zero and the one
  observed rating zero, the cost is zero although \<open>reg = 1\<close>. And with \<open>reg = 0\<close>,
  \<open>X = [[1.]]\<close>, \<open>Theta = [[1.], [inf]]\<close> and \<open>Y = [[1., 0.]]\<close> observed in its first
  entry only, the observed entry is reconstructed, but the residual at the other entry is
  infinite, \<open>inf * 0.0\<close> is NaN, and the cost is NaN.
\<close>

theorem cost_zero_counterexample:
  "\<not> (compute_cost zero_X zero_X zero_X one_R 1 = Inr 0 \<longleftrightarrow>
        (1::real) = 0 \<and> spec_reconstructed zero_X zero_X zero_X one_R) \<and>
   conforming_shapes fl_X inf_Theta (fl_Y (Fin 0)) fl_R \<and>
   matmul_in xr_arith fl_X (np_T inf_Theta) = Inr \<lparr>shape = (1, 2), rows = [[Fin 1, PInf]]\<rparr> \<and>
   rows (fl_Y (Fin 0)) = [[Fin 1, Fin 0]] \<and> rows fl_R = [[True, False]] \<and>
   compute_cost_in xr_arith fl_X inf_Theta (fl_Y (Fin 0)) fl_R (Fin 0) = Inr NaN"
  by (simp add: zero_X_def one_R_def eval_defs fl_defs inf_Theta_def eval_in_defs conforming_shapes_def)

text \<open>
  C2, amended. On conforming shapes with \<open>reg = 0\<close>: when every observed entry of \<open>Y\<close> is
  finite and equal to that of \<open>P = X @ Theta.T\<close>, the residual \<open>P - Y\<close> is finite at every
  entry that is not observed, and \<open>norm(X) ** 2 + norm(Theta) ** 2\<close> is finite, then
  \<open>compute_cost\<close> returns zero. Nothing is said in the other direction.
\<close>

theorem cost_zero_when_reconstructed:
  assumes "ieee_zero ar" and "conforming_shapes X Theta Y R"
    and "matmul_in ar X (np_T Theta) = Inr P"
    and "\<forall>i<fst (shape Y). \<forall>j<snd (shape Y). entry R i j \<longrightarrow>
           entry P i j = entry Y i j \<and> a_finite ar (entry Y i j)"
    and "\<forall>i<fst (shape Y). \<forall>j<snd (shape Y). \<not> entry R i j \<longrightarrow>
           a_finite ar (a_sub ar (entry P i j) (entry Y i j))"
    and "a_finite ar (a_add ar (a_square ar (linalg_norm_in ar X)) (a_square ar (linalg_norm_in ar Theta)))"
  shows "compute_cost_in ar X Theta Y R (a_zero ar) = Inr (a_zero ar)"
proof -
  note z = assms(1) and c = assms(2)
  let ?ni = "fst (shape X)" and ?nu = "fst (shape Theta)"
  have shY: "shape Y = (?ni, ?nu)" using c by (simp add: conforming_shapes_def)
  have P: "P = tabulate ?ni ?nu (product_in ar X Theta)"
    using assms(3) matmul_in_conforming[OF c, of ar] by simp
  have e: "a_mul ar (a_sub ar (product_in ar X Theta i j) (entry Y i j)) (a_mask ar (entry R i j)) = a_zero ar"
    if ij: "i < ?ni" "j < ?nu" for i j
  proof (cases "entry R i j")
    case True
    then have "product_in ar X Theta i j = entry Y i j" "a_finite ar (entry Y i j)"
      using assms(4) ij shY by (simp_all add: P)
    then show ?thesis using True by (simp add: ieee_zeroD(4)[OF z] ieee_zeroD(3)[OF z])
  next
    case False
    then have "a_finite ar (a_sub ar (product_in ar X Theta i j) (entry Y i j))"
      using assms(5) ij shY by (simp add: P)
    then show ?thesis using False by (simp add: ieee_zeroD(2)[OF z])
  qed
  have "masked_error_in ar X Theta Y R = Inr (tabulate ?ni ?nu (\<lambda>i j. a_zero ar))"
    unfolding masked_error_in_conforming[OF c]
    using e by (auto intro!: tabulate_cong)
  then have "compute_cost_in ar X Theta Y R (a_zero ar) = Inr (penalty_in ar X Theta (a_zero ar))"
    by (rule compute_cost_in_zero_error[OF z])
  then show ?thesis
    using assms(6) by (simp add: penalty_in_def ieee_zeroD(7)[OF z] ieee_zeroD(5)[OF z])
qed

theorem cost_zero_when_reconstructed_witness:
  "rows (fl_Y (Fin 7)) = [[Fin 1, Fin 7]] \<and> rows fl_R = [[True, False]] \<and>
   matmul_in xr_arith fl_X (np_T rec_Theta) = Inr \<lparr>shape = (1, 2), rows = [[Fin 1, Fin 3]]\<rparr> \<and>
   compute_cost_in xr_arith fl_X rec_Theta (fl_Y (Fin 7)) fl_R (Fin 0) = Inr (Fin 0)"
proof -
  let ?P = "\<lparr>shape = (1, 2), rows = [[Fin 1, Fin 3]]\<rparr> :: xr ndarray"
  have c: "conforming_shapes fl_X rec_Theta (fl_Y (Fin 7)) fl_R"
    by (simp add: conforming_shapes_def fl_defs rec_Theta_def)
  have P: "matmul_in xr_arith fl_X (np_T rec_Theta) = Inr ?P"
    by (simp add: fl_defs rec_Theta_def eval_in_defs)
  have o: "\<forall>i<fst (shape (fl_Y (Fin 7))). \<forall>j<snd (shape (fl_Y (Fin 7))). entry fl_R i j \<longrightarrow>
           entry ?P i j = entry (fl_Y (Fin 7)) i j \<and> a_finite xr_arith (entry (fl_Y (Fin 7)) i j)"
    by (simp add: fl_defs entry_def less_two xr_arith_sel)
  have u: "\<forall>i<fst (shape (fl_Y (Fin 7))). \<forall>j<snd (shape (fl_Y (Fin 7))). \<not> entry fl_R i j \<longrightarrow>
           a_finite xr_arith (a_sub xr_arith (entry ?P i j) (entry (fl_Y (Fin 7)) i j))"
    by (simp add: fl_defs entry_def less_two xr_arith_sel xr_sub_def)
  have n: "a_finite xr_arith (a_add xr_arith (a_square xr_arith (linalg_norm_in xr_arith fl_X))
        (a_square xr_arith (linalg_norm_in xr_arith rec_Theta)))"
    by (simp add: fl_defs rec_Theta_def linalg_norm_in_def xr_arith_sel)
  have "compute_cost_in xr_arith fl_X rec_Theta (fl_Y (Fin 7)) fl_R (a_zero xr_arith) = Inr (a_zero xr_arith)"
    by (rule cost_zero_when_reconstructed[OF ieee_zero_xr c P o u n])
  then show ?thesis using P by (simp add: xr_arith_sel fl_defs)
qed


section \<open>Unobserved entries\<close>

lemma fl_cost_finite: "compute_cost_in xr_arith fl_X fl_Theta (fl_Y (Fin u)) fl_R (Fin 0) = Inr (Fin 2)"
  by (simp add: fl_defs eval_in_defs)

lemma fl_cost_nan: "compute_cost_in xr_arith fl_X fl_Theta (fl_Y NaN) fl_R (Fin 0) = Inr NaN"
  by (simp add: fl_defs eval_in_defs)

lemma fl_residual:
  "residual_in xr_arith fl_X fl_Theta (fl_Y (Fin u)) = Inr \<lparr>shape = (1, 2), rows = [[Fin 2, Fin (4 - u)]]\<rparr>"
  by (simp add: fl_defs eval_in_defs)

lemma fl_residual_finite:
  "\<forall>D. residual_in xr_arith fl_X fl_Theta (fl_Y (Fin u)) = Inr D \<longrightarrow>
     (\<forall>i<fst (shape D). \<forall>j<snd (shape D). \<not> bentry R i j \<longrightarrow> a_finite xr_arith (entry D i j))"
  by (simp add: fl_residual xr_arith_sel entry_def less_two)

text \<open>
  C5, as stated: two ratings matrices that agree wherever the mask is true give the same
  cost, whatever is stored at the other entries. \<open>Y = [[1., 0.]]\<close> and \<open>Y' = [[1., nan]]\<close>
  agree at the one observed entry; the cost is 2 on the first and NaN on the second,
  because the mask is applied by multiplication and \<open>nan * 0.0\<close> is NaN.
\<close>

theorem nan_placeholder_counterexample:
  "shape (fl_Y (Fin 0)) = shape fl_R \<and> shape (fl_Y NaN) = shape fl_R \<and>
   entry fl_R 0 0 \<and> entry (fl_Y (Fin 0)) 0 0 = entry (fl_Y NaN) 0 0 \<and> \<not> entry fl_R 0 1 \<and>
   compute_cost_in xr_arith fl_X fl_Theta (fl_Y (Fin 0)) fl_R (Fin 0) = Inr (Fin 2) \<and>
   compute_cost_in xr_arith fl_X fl_Theta (fl_Y NaN) fl_R (Fin 0) = Inr NaN"
  by (simp add: fl_cost_finite fl_cost_nan) (simp add: fl_defs entry_def)

text \<open>
  C5, amended. Let \<open>Y\<close> and \<open>Y'\<close> have the shape of the mask and agree wherever it is true,
  and let the residual \<open>X @ Theta.T - Y\<close>, and the one for \<open>Y'\<close>, be finite (no NaN, no
  infinity) at every entry where the mask is false. Then \<open>compute_cost\<close>, both gradients
  and \<open>update\<close> give the same result on \<open>Y\<close> as on \<open>Y'\<close>. And when the mask is false
  everywhere, on conforming shapes, \<open>compute_cost\<close> returns the value of its penalty
  expression \<open>reg / 2 * (norm(X) ** 2 + norm(Theta) ** 2)\<close>.
\<close>

theorem mask_hides_finite_residuals:
  assumes "ieee_zero ar" and "shape Y = shape R" and "shape Y' = shape R"
    and "\<forall>i<fst (shape R). \<forall>j<snd (shape R). entry R i j \<longrightarrow> entry Y i j = entry Y' i j"
    and "\<forall>D. residual_in ar X Theta Y = Inr D \<longrightarrow>
           (\<forall>i<fst (shape D). \<forall>j<snd (shape D). \<not> bentry R i j \<longrightarrow> a_finite ar (entry D i j))"
    and "\<forall>D. residual_in ar X Theta Y' = Inr D \<longrightarrow>
           (\<forall>i<fst (shape D). \<forall>j<snd (shape D). \<not> bentry R i j \<longrightarrow> a_finite ar (entry D i j))"
  shows "compute_cost_in ar X Theta Y R reg = compute_cost_in ar X Theta Y' R reg \<and>
         update_dX_in ar X Theta Y R reg = update_dX_in ar X Theta Y' R reg \<and>
         update_dTheta_in ar X Theta Y R reg = update_dTheta_in ar X Theta Y' R reg \<and>
         (\<forall>s x t. s x = X \<and> s t = Theta \<longrightarrow>
            update_in ar s x t Y R reg alpha = update_in ar s x t Y' R reg alpha) \<and>
         (conforming_shapes X Theta Y R \<and> (\<forall>i<fst (shape R). \<forall>j<snd (shape R). \<not> entry R i j) \<longrightarrow>
            compute_cost_in ar X Theta Y R reg = Inr (penalty_in ar X Theta reg))"
proof -
  have m: "masked_error_in ar X Theta Y R = masked_error_in ar X Theta Y' R"
    using assms by (intro masked_error_in_mask_only) auto
  have dX: "update_dX_in ar X Theta Y R reg = update_dX_in ar X Theta Y' R reg"
    by (simp add: update_dX_in_def m)
  have dT: "update_dTheta_in ar X Theta Y R reg = update_dTheta_in ar X Theta Y' R reg"
    by (simp add: update_dTheta_in_def m)
  have cc: "compute_cost_in ar X Theta Y R reg = compute_cost_in ar X Theta Y' R reg"
    by (simp add: compute_cost_in_def m)
  have up: "update_in ar s x t Y R reg alpha = update_in ar s x t Y' R reg alpha"
    if st: "s x = X \<and> s t = Theta" for s x t
  proof -
    have "update_dX_in ar (s x) (s t) Y R reg = update_dX_in ar (s x) (s t) Y' R reg"
      "update_dTheta_in ar (s x) (s t) Y R reg = update_dTheta_in ar (s x) (s t) Y' R reg"
      using st dX dT by simp_all
    then show ?thesis unfolding update_in_def by (simp only:)
  qed
  have last: "compute_cost_in ar X Theta Y R reg = Inr (penalty_in ar X Theta reg)"
    if c: "conforming_shapes X Theta Y R" and f: "\<forall>i<fst (shape R). \<forall>j<snd (shape R). \<not> entry R i j"
  proof -
    let ?D = "tabulate (fst (shape X)) (fst (shape Theta))
            (\<lambda>i j. a_sub ar (product_in ar X Theta i j) (entry Y i j))"
    have shR: "shape R = (fst (shape X), fst (shape Theta))"
      using c by (simp add: conforming_shapes_def)
    have fin: "a_finite ar (a_sub ar (product_in ar X Theta i j) (entry Y i j))"
      if ij: "i < fst (shape X)" "j < fst (shape Theta)" for i j
    proof -
      have "\<not> bentry R i j" using f ij shR by (simp add: bentry_in_range)
      then have "a_finite ar (entry ?D i j)"
        using assms(5) residual_in_conforming[OF c, of ar] ij by simp
      then show ?thesis using ij by simp
    qed
    have "masked_error_in ar X Theta Y R =
        Inr (tabulate (fst (shape X)) (fst (shape Theta)) (\<lambda>i j. a_zero ar))"
      unfolding masked_error_in_conforming[OF c]
      using f shR fin by (auto simp: ieee_zeroD(2)[OF assms(1)] intro!: tabulate_cong)
    then show ?thesis by (rule compute_cost_in_zero_error[OF assms(1)])
  qed
  show ?thesis
    using cc dX dT up last by (intro conjI allI impI) (simp_all)
qed


theorem mask_hides_finite_residuals_witness:
  "fl_Y (Fin 0) \<noteq> fl_Y (Fin 99) \<and>
   compute_cost_in xr_arith fl_X fl_Theta (fl_Y (Fin 0)) fl_R (Fin 1)
     = compute_cost_in xr_arith fl_X fl_Theta (fl_Y (Fin 99)) fl_R (Fin 1) \<and>
   update_dX_in xr_arith fl_X fl_Theta (fl_Y (Fin 0)) fl_R (Fin 1)
     = update_dX_in xr_arith fl_X fl_Theta (fl_Y (Fin 99)) fl_R (Fin 1) \<and>
   update_dTheta_in xr_arith fl_X fl_Theta (fl_Y (Fin 0)) fl_R (Fin 1)
     = update_dTheta_in xr_arith fl_X fl_Theta (fl_Y (Fin 99)) fl_R (Fin 1) \<and>
   update_in xr_arith (\<lambda>r. if r = 0 then fl_X else fl_Theta) 0 1 (fl_Y (Fin 0)) fl_R (Fin 1) (Fin 2)
     = update_in xr_arith (\<lambda>r. if r = 0 then fl_X else fl_Theta) 0 1 (fl_Y (Fin 99)) fl_R (Fin 1) (Fin 2) \<and>
   conforming_shapes fl_X fl_Theta (fl_Y (Fin 5)) fl_none \<and>
   compute_cost_in xr_arith fl_X fl_Theta (fl_Y (Fin 5)) fl_none (Fin 1)
     = Inr (penalty_in xr_arith fl_X fl_Theta (Fin 1))"
proof -
  have ne: "fl_Y (Fin 0) \<noteq> fl_Y (Fin 99)" by (simp add: fl_Y_def)
  have sh: "shape (fl_Y u) = shape fl_R" "shape (fl_Y u) = shape fl_none" for u
    by (simp_all add: fl_defs fl_none_def)
  have ag: "\<forall>i<fst (shape fl_R). \<forall>j<snd (shape fl_R). entry fl_R i j \<longrightarrow>
      entry (fl_Y (Fin 0)) i j = entry (fl_Y (Fin 99)) i j"
    by (simp add: fl_defs entry_def less_two)
  have ag0: "\<forall>i<fst (shape fl_none). \<forall>j<snd (shape fl_none). entry fl_none i j \<longrightarrow>
      entry (fl_Y (Fin 5)) i j = entry (fl_Y (Fin 5)) i j"
    by simp
  have c: "conforming_shapes fl_X fl_Theta (fl_Y (Fin 5)) fl_none"
    by (simp add: conforming_shapes_def fl_defs fl_none_def)
  have nf: "\<forall>i<fst (shape fl_none). \<forall>j<snd (shape fl_none). \<not> entry fl_none i j"
    by (simp add: fl_none_def entry_def less_two)
  note A = mask_hides_finite_residuals[OF ieee_zero_xr sh(1) sh(1) ag fl_residual_finite fl_residual_finite,
      where reg="Fin 1" and alpha="Fin 2"]
  note B = mask_hides_finite_residuals[OF ieee_zero_xr sh(2) sh(2) ag0 fl_residual_finite fl_residual_finite,
      where reg="Fin 1" and alpha="Fin 2"]
  have st: "(\<lambda>r::nat. if r = 0 then fl_X else fl_Theta) 0 = fl_X \<and>
            (\<lambda>r::nat. if r = 0 then fl_X else fl_Theta) 1 = fl_Theta" by simp
  note 1 = A[THEN conjunct1] and 2 = A[THEN conjunct2, THEN conjunct1]
    and 3 = A[THEN conjunct2, THEN conjunct2, THEN conjunct1]
    and 4 = A[THEN conjunct2, THEN conjunct2, THEN conjunct2, THEN conjunct1, THEN spec, THEN spec, THEN spec,
              THEN mp, OF st]
    and 5 = B[THEN conjunct2, THEN conjunct2, THEN conjunct2, THEN conjunct2, THEN mp, OF conjI[OF c nf]]
  show ?thesis by (intro conjI ne 1 2 3 4 c 5)
qed


section \<open>One update step\<close>





section \<open>The training loop\<close>

lemma update_pair_conforming:
  assumes c: "conforming (fst p) (snd p) Y R"
  shows "update_pair Y R reg alpha p = Inr (spec_updateStep Y R reg alpha p)"
proof -
  let ?s = "\<lambda>r::nat. if r = 0 then fst p else snd p"
  have c': "conforming (?s 0) (?s 1) Y R" using c by simp
  have n: "(0::nat) \<noteq> 1" by simp
  show ?thesis
    unfolding update_pair_def update_conforming[OF c' n] by simp
qed

lemma apply_updates_closed:
  assumes "conforming (fst p) (snd p) Y R"
  shows "apply_updates n Y R reg alpha p = Inr ((spec_updateStep Y R reg alpha ^^ n) p)"
  using assms
proof (induction n arbitrary: p)
  case 0
  then show ?case by simp
next
  case (Suc n)
  have "apply_updates (Suc n) Y R reg alpha p = apply_updates n Y R reg alpha (spec_updateStep Y R reg alpha p)"
    by (simp add: update_pair_conforming[OF Suc.prems] bindE_def)
  also have "\<dots> = Inr ((spec_updateStep Y R reg alpha ^^ n) (spec_updateStep Y R reg alpha p))"
    using conforming_step[of "fst p" "snd p" Y R reg alpha] Suc.prems by (intro Suc.IH) simp
  finally show ?case by (simp add: funpow_swap1)
qed


lemma init_factors_draws:
  "init_factors g Y k =
     (tabulate (fst (shape Y)) k (\<lambda>i j. g (i * k + j)),
      tabulate (snd (shape Y)) k (\<lambda>i j. g (fst (shape Y) * k + (i * k + j))))"
  by (simp add: init_factors_def randn_def)

lemma report_iterations_60: "map int (filter (\<lambda>i. i mod 100 = 0) [0..<60]) = [0]"
  by code_simp

lemma spec_report_50_60: "map int (filter (\<lambda>i. i mod 50 = 0) [0..<60]) = [0, 50]"
  by code_simp

text \<open>
  C8, as stated: \<open>train\<close> reports before the first step and at every \<open>reportEvery\<close>-th
  step after it. \<open>train\<close> has no such parameter: its interval is the constant 100. With
  \<open>n_iter = 60\<close> an interval of 50 asks for reports at the iterations 0 and 50, and
  \<open>train\<close> reports at iteration 0 only.
\<close>

theorem report_interval_counterexample:
  "map fst (snd (train (\<lambda>n. real n) ex_Y ex_R 1 (1 / 10) 2 60)) = [0] \<and>
   spec_report_iterations 50 60 = [0, 50]"
proof -
  have w: "valid ex_Y" "valid ex_R" "shape ex_R = shape ex_Y" "(0::int) \<le> 2"
    by (simp_all add: ex_defs valid_def)
  have n: "nat 60 = 60" by simp
  have "map fst (snd (train (\<lambda>n. real n) ex_Y ex_R 1 (1 / 10) 2 60)) =
          map int (filter (\<lambda>i. i mod 100 = 0) [0..<nat 60])"
    unfolding train_closed[OF w] by (simp add: comp_def)
  then have 1: "map fst (snd (train (\<lambda>n. real n) ex_Y ex_R 1 (1 / 10) 2 60)) = [0]"
    unfolding n report_iterations_60 .
  have 2: "spec_report_iterations 50 60 = [0, 50]"
    unfolding spec_report_iterations_def n spec_report_50_60 ..
  show ?thesis using 1 2 by (intro conjI)
qed

text \<open>
  C8, amended. On valid input (\<open>Y\<close> and \<open>R\<close> of one shape, \<open>n_factor = k \<ge> 0\<close>) \<open>train\<close>
  takes the first \<open>ni * k\<close> samples of the generator as \<open>X\<close>, row by row, and the next
  \<open>nu * k\<close> as \<open>Theta\<close>, and returns the result of exactly \<open>n_iter\<close> calls of \<open>update\<close>
  in sequence, whatever the costs are. It reports at the iterations \<open>0, 100, 200, \<dots>\<close>
  below \<open>n_iter\<close>, in this order: the interval is the constant 100. Each reported cost is
  what \<open>compute_cost\<close> returns on the matrices after that many updates.
\<close>

theorem train_applies_update_n_iter_times:
  assumes "valid Y" and "valid R" and "shape R = shape Y" and "0 \<le> n_factor"
  shows "\<exists>X0 Theta0 X Theta out.
    X0 = tabulate (fst (shape Y)) (nat n_factor) (\<lambda>i j. g (i * nat n_factor + j)) \<and>
    Theta0 = tabulate (snd (shape Y)) (nat n_factor)
               (\<lambda>i j. g (fst (shape Y) * nat n_factor + (i * nat n_factor + j))) \<and>
    train g Y R reg alpha n_factor n_iter = (Inr (X, Theta), out) \<and>
    apply_updates (nat n_iter) Y R reg alpha (X0, Theta0) = Inr (X, Theta) \<and>
    map fst out = spec_report_iterations 100 n_iter \<and>
    (\<forall>(i, c) \<in> set out. \<exists>Xi Thetai.
        apply_updates (nat i) Y R reg alpha (X0, Theta0) = Inr (Xi, Thetai) \<and>
        compute_cost Xi Thetai Y R reg = Inr c)"
proof -
  define p0 where "p0 = init_factors g Y (nat n_factor)"
  let ?F = "spec_updateStep Y R reg alpha"
  define cv where "cv i = cost_value (fst ((?F ^^ i) p0)) (snd ((?F ^^ i) p0)) Y R reg" for i
  define out where "out = map (\<lambda>i. (int i, cv i)) (filter (\<lambda>i. i mod 100 = 0) [0..<nat n_iter])"
  have p0: "p0 = (tabulate (fst (shape Y)) (nat n_factor) (\<lambda>i j. g (i * nat n_factor + j)),
       tabulate (snd (shape Y)) (nat n_factor)
               (\<lambda>i j. g (fst (shape Y) * nat n_factor + (i * nat n_factor + j))))"
    unfolding p0_def by (rule init_factors_draws)
  have c0: "conforming (fst p0) (snd p0) Y R"
    unfolding p0_def by (rule conforming_init[OF assms(1-3)])
  have tr: "train g Y R reg alpha n_factor n_iter = (Inr ((?F ^^ nat n_iter) p0), out)"
    unfolding out_def cv_def p0_def by (rule train_closed[OF assms])
  have ap: "apply_updates n Y R reg alpha p0 = Inr ((?F ^^ n) p0)" for n
    by (rule apply_updates_closed[OF c0])
  have cc: "compute_cost (fst ((?F ^^ n) p0)) (snd ((?F ^^ n) p0)) Y R reg = Inr (cv n)" for n
    unfolding cv_def by (rule compute_cost_conforming[OF conforming_funpow[OF c0]])
  have m: "map fst out = spec_report_iterations 100 n_iter"
    by (simp add: out_def spec_report_iterations_def comp_def)
  have each: "\<forall>(i, c) \<in> set out. \<exists>Xi Thetai.
        apply_updates (nat i) Y R reg alpha p0 = Inr (Xi, Thetai) \<and> compute_cost Xi Thetai Y R reg = Inr c"
  proof (clarify)
    fix i c assume "(i, c) \<in> set out"
    then obtain n where n: "i = int n" "c = cv n"
      unfolding out_def by auto
    have "apply_updates (nat i) Y R reg alpha p0 = Inr (fst ((?F ^^ n) p0), snd ((?F ^^ n) p0)) \<and>
        compute_cost (fst ((?F ^^ n) p0)) (snd ((?F ^^ n) p0)) Y R reg = Inr c"
      using cc[of n] by (simp add: n ap)
    then show "\<exists>Xi Thetai. apply_updates (nat i) Y R reg alpha p0 = Inr (Xi, Thetai) \<and>
        compute_cost Xi Thetai Y R reg = Inr c"
      by (intro exI[of _ "fst ((?F ^^ n) p0)"] exI[of _ "snd ((?F ^^ n) p0)"])
  qed
  obtain X Theta where xt: "(?F ^^ nat n_iter) p0 = (X, Theta)" by (cases "(?F ^^ nat n_iter) p0")
  show ?thesis
    apply (rule exI[of _ "fst p0"], rule exI[of _ "snd p0"], rule exI[of _ X], rule exI[of _ Theta],
           rule exI[of _ out])
    using tr ap[of "nat n_iter"] m each unfolding xt
    by (simp add: p0)
qed

lemma report_iterations_250: "map int (filter (\<lambda>i. i mod 100 = 0) [0..<250]) = [0, 100, 200]"
  by code_simp

theorem train_applies_update_n_iter_times_witness:
  "\<exists>X Theta out.
    train (\<lambda>n. real n) ex_Y ex_R 1 (1 / 10) 2 250 = (Inr (X, Theta), out) \<and>
    apply_updates 250 ex_Y ex_R 1 (1 / 10)
      (\<lparr>shape = (2, 2), rows = [[0, 1], [2, 3]]\<rparr>, \<lparr>shape = (3, 2), rows = [[4, 5], [6, 7], [8, 9]]\<rparr>)
      = Inr (X, Theta) \<and>
    map fst out = [0, 100, 200]"
proof -
  have w: "valid ex_Y" "valid ex_R" "shape ex_R = shape ex_Y" "(0::int) \<le> 2"
    by (simp_all add: ex_defs valid_def)
  have n: "nat 250 = 250" "nat 2 = 2" by simp_all
  have x0: "tabulate (fst (shape ex_Y)) 2 (\<lambda>i j. real (i * 2 + j)) = \<lparr>shape = (2, 2), rows = [[0, 1], [2, 3]]\<rparr>"
    by (simp add: ex_defs tabulate_def upt_conv_Cons)
  have t0: "tabulate (snd (shape ex_Y)) 2 (\<lambda>i j. real (fst (shape ex_Y) * 2 + (i * 2 + j)))
      = \<lparr>shape = (3, 2), rows = [[4, 5], [6, 7], [8, 9]]\<rparr>"
    by (simp add: ex_defs tabulate_def upt_conv_Cons)
  have r250: "spec_report_iterations 100 250 = [0, 100, 200]"
    unfolding spec_report_iterations_def n report_iterations_250 ..
  obtain X0 Theta0 X Theta out where
    r: "X0 = tabulate (fst (shape ex_Y)) (nat 2) (\<lambda>i j. real (i * nat 2 + j))"
       "Theta0 = tabulate (snd (shape ex_Y)) (nat 2) (\<lambda>i j. real (fst (shape ex_Y) * nat 2 + (i * nat 2 + j)))"
       "train (\<lambda>n. real n) ex_Y ex_R 1 (1 / 10) 2 250 = (Inr (X, Theta), out)"
       "apply_updates (nat 250) ex_Y ex_R 1 (1 / 10) (X0, Theta0) = Inr (X, Theta)"
       "map fst out = spec_report_iterations 100 250"
    using train_applies_update_n_iter_times[OF w, where g="\<lambda>n. real n" and reg=1 and alpha="1 / 10" and n_iter=250]
    by (elim exE conjE)
  note r' = r(3) r(4)[unfolded r(1) r(2) n x0 t0] r(5)[unfolded r250]
  show ?thesis
    by (intro exI[of _ X] exI[of _ Theta] exI[of _ out] conjI r')
qed


lemma isubtract_valid: "isubtract A B = Inr C \<Longrightarrow> valid C"
  by (auto simp: isubtract_def split: if_splits)

lemma update_result_valid:
  assumes "update s x t Y R reg alpha = (Inr r, s')"
  shows "valid (s' x) \<and> valid (s' t)"
  using assms
  by (auto simp: update_def Let_def isubtract_valid split: sum.splits if_splits)

text \<open>
  C9. For a ratings matrix \<open>Y\<close> of shape \<open>(ni, nu)\<close>, a mask of that shape and
  \<open>n_factor = k \<ge> 0\<close>, \<open>train\<close> returns \<open>X\<close> of shape \<open>(ni, k)\<close> and \<open>Theta\<close> of shape
  \<open>(nu, k)\<close>: \<open>X\<close> has \<open>ni\<close> rows of \<open>k\<close> entries and \<open>Theta\<close> has \<open>nu\<close> rows of \<open>k\<close>
  entries. Every call of \<open>update\<close> on conforming arrays leaves both shapes as they
  were, with rows of these lengths.
\<close>

theorem train_fixes_shapes:
  assumes "valid Y" and "valid R" and "shape R = shape Y" and "0 \<le> n_factor"
  shows "(\<exists>X Theta out. train g Y R reg alpha n_factor n_iter = (Inr (X, Theta), out) \<and>
            shape X = (fst (shape Y), nat n_factor) \<and>
            length (rows X) = fst (shape Y) \<and> list_all (\<lambda>r. length r = nat n_factor) (rows X) \<and>
            shape Theta = (snd (shape Y), nat n_factor) \<and>
            length (rows Theta) = snd (shape Y) \<and> list_all (\<lambda>r. length r = nat n_factor) (rows Theta)) \<and>
         (\<forall>s x t. conforming (s x) (s t) Y R \<longrightarrow>
            (\<exists>s'. update s x t Y R reg alpha = (Inr (x, t), s') \<and>
                  shape (s' x) = shape (s x) \<and> valid (s' x) \<and>
                  shape (s' t) = shape (s t) \<and> valid (s' t)))"
proof -
  let ?p0 = "init_factors g Y (nat n_factor)"
  let ?F = "spec_updateStep Y R reg alpha"
  obtain X Theta where xt: "(?F ^^ nat n_iter) ?p0 = (X, Theta)" by (cases "(?F ^^ nat n_iter) ?p0")
  have sh: "shape X = (fst (shape Y), nat n_factor)" "shape Theta = (snd (shape Y), nat n_factor)"
    using shape_funpow[where Y=Y and R=R and reg=reg and alpha=alpha and n="nat n_iter" and p="?p0"]
      shape_init[where g=g and Y=Y and k="nat n_factor"]
    by (simp_all add: xt)
  have "conforming (fst ((?F ^^ nat n_iter) ?p0)) (snd ((?F ^^ nat n_iter) ?p0)) Y R"
    by (rule conforming_funpow[OF conforming_init[OF assms(1-3)]])
  then have v: "valid X" "valid Theta" by (simp_all add: xt conforming_def)
  have rw: "length (rows X) = fst (shape Y)" "list_all (\<lambda>r. length r = nat n_factor) (rows X)"
    "length (rows Theta) = snd (shape Y)" "list_all (\<lambda>r. length r = nat n_factor) (rows Theta)"
    using v sh by (simp_all add: valid_def)
  have tr: "train g Y R reg alpha n_factor n_iter = (Inr (X, Theta),
      map (\<lambda>i. (int i, cost_value (fst ((?F ^^ i) ?p0)) (snd ((?F ^^ i) ?p0)) Y R reg))
         (filter (\<lambda>i. i mod 100 = 0) [0..<nat n_iter]))"
    using train_closed[OF assms, where g=g and reg=reg and alpha=alpha and n_iter=n_iter] unfolding xt .
  have a: "\<exists>X Theta out. train g Y R reg alpha n_factor n_iter = (Inr (X, Theta), out) \<and>
            shape X = (fst (shape Y), nat n_factor) \<and>
            length (rows X) = fst (shape Y) \<and> list_all (\<lambda>r. length r = nat n_factor) (rows X) \<and>
            shape Theta = (snd (shape Y), nat n_factor) \<and>
            length (rows Theta) = snd (shape Y) \<and> list_all (\<lambda>r. length r = nat n_factor) (rows Theta)"
    using tr sh rw by (intro exI[of _ X] exI[of _ Theta] exI conjI)
  have b: "\<exists>s'. update s x t Y R reg alpha = (Inr (x, t), s') \<and>
                  shape (s' x) = shape (s x) \<and> valid (s' x) \<and>
                  shape (s' t) = shape (s t) \<and> valid (s' t)"
    if c: "conforming (s x) (s t) Y R" for s x t
  proof -
    obtain s' where s': "update s x t Y R reg alpha = (Inr (x, t), s')"
      "shape (s' x) = shape (s x)" "shape (s' t) = shape (s t)"
      using update_succeeds[OF conforming_shapes_fit[OF c], of reg alpha] by (elim exE conjE)
    show ?thesis
      using s' update_result_valid[OF s'(1)] by (intro exI[of _ s']) simp
  qed
  show ?thesis using a b by (intro conjI allI impI)
qed

theorem train_fixes_shapes_witness:
  "shape big_Y = (5, 7) \<and>
   (\<exists>X Theta out. train (\<lambda>n. real n) big_Y big_R (1 / 2) (1 / 100) 3 250 = (Inr (X, Theta), out) \<and>
       shape X = (5, 3) \<and> length (rows X) = 5 \<and> list_all (\<lambda>r. length r = 3) (rows X) \<and>
       shape Theta = (7, 3) \<and> length (rows Theta) = 7 \<and> list_all (\<lambda>r. length r = 3) (rows Theta)) \<and>
   conforming (ex_store 0) (ex_store 1) ex_Y ex_R \<and>
   (\<exists>s'. update ex_store 0 1 ex_Y ex_R (1 / 2) (1 / 100) = (Inr (0, 1), s') \<and>
         shape (s' 0) = (2, 2) \<and> valid (s' 0) \<and> shape (s' 1) = (3, 2) \<and> valid (s' 1))"
proof -
  have v: "valid big_Y" "valid big_R" "shape big_R = shape big_Y" "(0::int) \<le> 3"
    by (simp_all add: big_Y_def big_R_def)
  have w: "valid ex_Y" "valid ex_R" "shape ex_R = shape ex_Y"
    by (simp_all add: ex_defs valid_def)
  have c: "conforming (ex_store 0) (ex_store 1) ex_Y ex_R"
    by (simp add: ex_store_def conforming_def valid_def ex_defs)
  have sh: "shape big_Y = (5, 7)" "shape (ex_store 0) = (2, 2)" "shape (ex_store 1) = (3, 2)"
    by (simp_all add: big_Y_def ex_store_def ex_defs)
  have n: "fst (shape big_Y) = 5" "snd (shape big_Y) = 7" "nat 3 = 3" by (simp_all add: sh)
  note 1 = train_fixes_shapes[OF v, where g="\<lambda>n. real n" and reg="1 / 2" and alpha="1 / 100" and n_iter=250,
      THEN conjunct1, unfolded n]
  note T = train_fixes_shapes[OF w, where n_factor=0 and reg="1 / 2" and alpha="1 / 100", THEN conjunct2,
      THEN spec, THEN spec, THEN spec, THEN mp, OF _ c]
  have 2: "\<exists>s'. update ex_store 0 1 ex_Y ex_R (1 / 2) (1 / 100) = (Inr (0, 1), s') \<and>
         shape (s' 0) = (2, 2) \<and> valid (s' 0) \<and> shape (s' 1) = (3, 2) \<and> valid (s' 1)"
    using T unfolding sh by simp
  show ?thesis using 1 2 c sh(1) by (intro conjI)
qed


lemma mod100_int: "int m mod 100 = 0 \<longleftrightarrow> m mod 100 = 0"
  by presburger

lemma mod100_nat: "0 \<le> i \<Longrightarrow> nat i mod 100 = 0 \<longleftrightarrow> i mod 100 = 0"
  by presburger

lemma report_member:
  "(i, c) \<in> set (map (\<lambda>m. (int m, cv m)) (filter (\<lambda>m. m mod 100 = 0) [0..<n])) \<longleftrightarrow>
     0 \<le> i \<and> i < int n \<and> i mod 100 = 0 \<and> c = cv (nat i)"
proof
  assume "(i, c) \<in> set (map (\<lambda>m. (int m, cv m)) (filter (\<lambda>m. m mod 100 = 0) [0..<n]))"
  then have "\<exists>m. m < n \<and> m mod 100 = 0 \<and> i = int m \<and> c = cv m"
    by (auto simp del: mod_eq_0_iff_dvd)
  then obtain m where m: "m < n" "m mod 100 = 0" "i = int m" "c = cv m" by (elim exE conjE)
  have "int m mod 100 = 0" using m(2) by (simp only: mod100_int)
  then show "0 \<le> i \<and> i < int n \<and> i mod 100 = 0 \<and> c = cv (nat i)"
    using m(1,3,4) by simp
next
  assume r: "0 \<le> i \<and> i < int n \<and> i mod 100 = 0 \<and> c = cv (nat i)"
  note r0 = r[THEN conjunct1] and r1 = r[THEN conjunct2, THEN conjunct1]
    and r2 = r[THEN conjunct2, THEN conjunct2, THEN conjunct1]
    and r3 = r[THEN conjunct2, THEN conjunct2, THEN conjunct2]
  have z: "nat i mod 100 = 0" using r2 by (simp only: mod100_nat[OF r0])
  have "nat i < n" using r0 r1 by linarith
  then have "nat i \<in> {m \<in> set [0..<n]. m mod 100 = 0}" using z by simp
  then have "(int (nat i), cv (nat i)) \<in> (\<lambda>m. (int m, cv m)) ` {m \<in> set [0..<n]. m mod 100 = 0}"
    by (rule imageI)
  moreover have "int (nat i) = i" using r0 by simp
  ultimately show "(i, c) \<in> set (map (\<lambda>m. (int m, cv m)) (filter (\<lambda>m. m mod 100 = 0) [0..<n]))"
    using r3 by (simp only: set_map set_filter)
qed


lemma reported_cost:
  assumes c0: "conforming (fst p0) (snd p0) Y R"
  shows "(\<exists>X Theta. apply_updates n Y R reg alpha p0 = Inr (X, Theta) \<and> compute_cost X Theta Y R reg = Inr c)
     \<longleftrightarrow> c = cost_value (fst ((spec_updateStep Y R reg alpha ^^ n) p0))
                         (snd ((spec_updateStep Y R reg alpha ^^ n) p0)) Y R reg"
proof -
  let ?q = "(spec_updateStep Y R reg alpha ^^ n) p0"
  have ap: "apply_updates n Y R reg alpha p0 = Inr (fst ?q, snd ?q)"
    by (simp add: apply_updates_closed[OF c0])
  have cc: "compute_cost (fst ?q) (snd ?q) Y R reg = Inr (cost_value (fst ?q) (snd ?q) Y R reg)"
    by (rule compute_cost_conforming[OF conforming_funpow[OF c0]])
  show ?thesis
  proof
    assume "\<exists>X Theta. apply_updates n Y R reg alpha p0 = Inr (X, Theta) \<and> compute_cost X Theta Y R reg = Inr c"
    then obtain X Theta where "Inr (fst ?q, snd ?q) = (Inr (X, Theta) :: error + real ndarray \<times> real ndarray)"
      and x: "compute_cost X Theta Y R reg = Inr c"
      unfolding ap by (elim exE conjE)
    then have "X = fst ?q" "Theta = snd ?q" by simp_all
    then show "c = cost_value (fst ?q) (snd ?q) Y R reg" using x cc by simp
  next
    assume "c = cost_value (fst ?q) (snd ?q) Y R reg"
    then have "apply_updates n Y R reg alpha p0 = Inr (fst ?q, snd ?q) \<and>
        compute_cost (fst ?q) (snd ?q) Y R reg = Inr c"
      using ap cc by simp
    then show "\<exists>X Theta. apply_updates n Y R reg alpha p0 = Inr (X, Theta) \<and> compute_cost X Theta Y R reg = Inr c"
      by (intro exI[of _ "fst ?q"] exI[of _ "snd ?q"])
  qed
qed

text \<open>
  C10. A pair \<open>(i, c)\<close> is reported exactly when \<open>0 \<le> i < n_iter\<close>, \<open>i\<close> is a multiple
  of 100 and \<open>c\<close> is the cost of the matrices after \<open>i\<close> updates, that is before the
  update of iteration \<open>i\<close>; so nothing is reported for the matrices after the last
  update. With \<open>n_iter \<le> 0\<close> there is no update and no report, and \<open>train\<close> returns
  the matrices it drew.
\<close>

theorem train_reports:
  "(0 \<le> n_factor \<and> n_iter \<le> 0 \<longrightarrow>
      train g Y R reg alpha n_factor n_iter = (Inr (init_factors g Y (nat n_factor)), [])) \<and>
   (valid Y \<and> valid R \<and> shape R = shape Y \<and> 0 \<le> n_factor \<longrightarrow>
      (\<forall>i c. (i, c) \<in> set (snd (train g Y R reg alpha n_factor n_iter)) \<longleftrightarrow>
          0 \<le> i \<and> i < n_iter \<and> i mod 100 = 0 \<and>
          (\<exists>X Theta. apply_updates (nat i) Y R reg alpha (init_factors g Y (nat n_factor)) = Inr (X, Theta) \<and>
                      compute_cost X Theta Y R reg = Inr c)))"
proof (intro conjI impI allI)
  assume "0 \<le> n_factor \<and> n_iter \<le> 0"
  then show "train g Y R reg alpha n_factor n_iter = (Inr (init_factors g Y (nat n_factor)), [])"
    by (simp add: train_no_iterations)
next
  fix i c
  assume a: "valid Y \<and> valid R \<and> shape R = shape Y \<and> 0 \<le> n_factor"
  define p0 where "p0 = init_factors g Y (nat n_factor)"
  define cv where "cv m = cost_value (fst ((spec_updateStep Y R reg alpha ^^ m) p0))
      (snd ((spec_updateStep Y R reg alpha ^^ m) p0)) Y R reg" for m
  have c0: "conforming (fst p0) (snd p0) Y R"
    unfolding p0_def using a by (intro conforming_init) simp_all
  have out: "snd (train g Y R reg alpha n_factor n_iter) =
      map (\<lambda>m. (int m, cv m)) (filter (\<lambda>m. m mod 100 = 0) [0..<nat n_iter])"
    unfolding cv_def p0_def using a train_closed[of Y R n_factor g reg alpha n_iter] by simp
  have lt: "0 \<le> i \<Longrightarrow> i < int (nat n_iter) \<longleftrightarrow> i < n_iter" by linarith
  show "(i, c) \<in> set (snd (train g Y R reg alpha n_factor n_iter)) \<longleftrightarrow>
          0 \<le> i \<and> i < n_iter \<and> i mod 100 = 0 \<and>
          (\<exists>X Theta. apply_updates (nat i) Y R reg alpha (init_factors g Y (nat n_factor)) = Inr (X, Theta) \<and>
                      compute_cost X Theta Y R reg = Inr c)"
    unfolding out report_member p0_def[symmetric] reported_cost[OF c0] cv_def[symmetric]
    using lt by (auto simp del: mod_eq_0_iff_dvd)
qed

theorem train_reports_witness:
  "train (\<lambda>n. real n) ex_Y ex_R 1 (1 / 10) 2 0 = (Inr (init_factors (\<lambda>n. real n) ex_Y 2), []) \<and>
   (0, cost_value (fst (init_factors (\<lambda>n. real n) ex_Y 2)) (snd (init_factors (\<lambda>n. real n) ex_Y 2)) ex_Y ex_R 1)
      \<in> set (snd (train (\<lambda>n. real n) ex_Y ex_R 1 (1 / 10) 2 100)) \<and>
   (100, 0) \<notin> set (snd (train (\<lambda>n. real n) ex_Y ex_R 1 (1 / 10) 2 100))"
proof -
  let ?g = "\<lambda>n. real n"
  let ?p0 = "init_factors ?g ex_Y 2"
  have w: "valid ex_Y \<and> valid ex_R \<and> shape ex_R = shape ex_Y \<and> (0::int) \<le> 2"
    by (simp add: ex_defs valid_def)
  have z: "(0::int) \<le> 2 \<and> (0::int) \<le> 0" by simp
  have n2: "nat 2 = 2" by simp
  have c0: "conforming (fst ?p0) (snd ?p0) ex_Y ex_R"
    using w by (intro conforming_init) simp_all
  have 1: "train ?g ex_Y ex_R 1 (1 / 10) 2 0 = (Inr ?p0, [])"
    using train_reports[where n_factor=2 and n_iter=0 and g="?g" and Y=ex_Y and R=ex_R and reg=1 and alpha="1 / 10",
        THEN conjunct1, THEN mp, OF z]
    unfolding n2 .
  note iff = train_reports[where n_factor=2 and n_iter=100 and g="?g" and Y=ex_Y and R=ex_R and reg=1 and alpha="1 / 10",
        THEN conjunct2, THEN mp, OF w, unfolded n2]
  have e: "\<exists>X Theta. apply_updates (nat 0) ex_Y ex_R 1 (1 / 10) ?p0 = Inr (X, Theta) \<and>
      compute_cost X Theta ex_Y ex_R 1 = Inr (cost_value (fst ?p0) (snd ?p0) ex_Y ex_R 1)"
    using compute_cost_conforming[OF c0, of 1]
    by (intro exI[of _ "fst ?p0"] exI[of _ "snd ?p0"]) simp
  have 2: "(0, cost_value (fst ?p0) (snd ?p0) ex_Y ex_R 1) \<in> set (snd (train ?g ex_Y ex_R 1 (1 / 10) 2 100))"
    using iff[THEN spec, THEN spec, THEN iffD2, of 0 "cost_value (fst ?p0) (snd ?p0) ex_Y ex_R 1"] e
    by simp
  have 3: "(100, 0) \<notin> set (snd (train ?g ex_Y ex_R 1 (1 / 10) 2 100))"
    using iff[THEN spec, THEN spec, THEN iffD1, of 100 0] by auto
  show ?thesis using 1 2 3 by (intro conjI)
qed

end

